theory Spec2Isabelle
  imports Complex_Main
begin

section \<open>Theme transition controller of \<open>src/index.tsx\<close>\<close>

text \<open>
  The script keeps its state in module-level variables, in the DOM (the body's class list,
  the toggle button with its two icons, the overlay's inline style and its
  \<open>transitionend\<close> listeners), in \<open>localStorage\<close> and in the browser's queues of
  animation-frame callbacks and timers. The model passes all of it explicitly in one
  record, and every write the script makes to the outside is also appended to a log, in the
  order in which the script makes it.
\<close>

subsection \<open>Data\<close>

text \<open>\<open>type ThemeSetting = 'light' | 'dark'\<close> (lines 16-17).\<close>

datatype ThemeSetting = Light | Dark

fun setting_string :: "ThemeSetting \<Rightarrow> string" where
  "setting_string Light = ''light''"
| "setting_string Dark = ''dark''"

text \<open>
  The closures that one call of \<open>applyTheme\<close> creates (lines 121-154). The number is the
  identity of the call that created them: two calls create different function objects, also
  when they capture the same values. \<open>HandlePhase1End\<close> captures \<open>actualThemeToApply\<close>
  and \<open>targetBgColor\<close>.
\<close>

datatype listener =
    HandlePhase1End nat ThemeSetting string
  | HandlePhase2End nat
  | HandlePhase3End nat

text \<open>The two callbacks handed to \<open>requestAnimationFrame\<close> (lines 104-106, 134-136, 145-147).\<close>

datatype frame_callback =
    SetOpacity string
  | SetBackgroundColor string

datatype element = Body | SunIcon | MoonIcon

text \<open>What the script does to the world outside its variables, one constructor per call.\<close>

datatype effect =
    SetItem string string
  | ClassToggle element string bool
  | ClassAdd element string
  | ClassRemove element string
  | OffsetHeightRead
  | StyleSet string string
  | SetAttribute string string
  | RequestAnimationFrame frame_callback
  | SetTimeout nat nat
  | ClearTimeout nat
  | AddEventListener listener bool
  | RemoveEventListener listener
  | ConsoleWarn string

text \<open>
  The toggle button (line 7) with the class lists of the two icons looked up inside it
  (lines 8-9; \<open>None\<close> where \<open>querySelector\<close> finds nothing) and its \<open>aria-label\<close>.
\<close>

record toggle_button =
  sun_icon :: "string list option"
  moon_icon :: "string list option"
  aria_label :: "string option"

text \<open>
  The overlay element (line 11): the four inline style properties the script writes and the
  \<open>transitionend\<close> listeners registered on it, each with its \<open>once\<close> option.
\<close>

record overlay =
  backgroundColor :: string
  opacity :: string
  transition :: string
  pointerEvents :: string
  listeners :: "(listener \<times> bool) list"

text \<open>
  \<open>currentThemeSetting\<close> has the declared type \<open>ThemeSetting\<close> (line 18) and is assigned
  by \<open>initComponents\<close> before anything reads it. \<open>timers\<close> holds the pending failsafe timers
  as pairs of identifier and delay; \<open>timer_counter\<close> and \<open>closure_counter\<close> number the
  timers and the calls of \<open>applyTheme\<close>. \<open>root_bg_color\<close> and \<open>root_dark_bg_color\<close> are the
  values of the custom properties \<open>--bg-color\<close> and \<open>--dark-bg-color\<close> computed for the
  root element.
\<close>

record state =
  themeToggleButton :: "toggle_button option"
  themeOverlay :: "overlay option"
  body_classList :: "string list"
  isTransitioning :: bool
  transitionFailsafeTimeoutId :: "nat option"
  currentThemeSetting :: ThemeSetting
  localStorage :: "string \<rightharpoonup> string"
  frame_callbacks :: "frame_callback list"
  timers :: "(nat \<times> nat) list"
  timer_counter :: nat
  closure_counter :: nat
  root_bg_color :: string
  root_dark_bg_color :: string
  trace :: "effect list"

subsection \<open>Browser primitives\<close>

definition emit :: "effect \<Rightarrow> state \<Rightarrow> state" where
  "emit e st = st\<lparr>trace := trace st @ [e]\<rparr>"

text \<open>\<open>DOMTokenList\<close>: an ordered set of class names.\<close>

definition classList_contains :: "string \<Rightarrow> string list \<Rightarrow> bool" where
  "classList_contains c cs = (c \<in> set cs)"

definition classList_add :: "string \<Rightarrow> string list \<Rightarrow> string list" where
  "classList_add c cs = (if c \<in> set cs then cs else cs @ [c])"

definition classList_remove :: "string \<Rightarrow> string list \<Rightarrow> string list" where
  "classList_remove c cs = removeAll c cs"

definition classList_toggle :: "string \<Rightarrow> bool \<Rightarrow> string list \<Rightarrow> string list" where
  "classList_toggle c force cs = (if force then classList_add c cs else classList_remove c cs)"

definition localStorage_setItem :: "string \<Rightarrow> string \<Rightarrow> state \<Rightarrow> state" where
  "localStorage_setItem k v st = emit (SetItem k v) (st\<lparr>localStorage := (localStorage st)(k \<mapsto> v)\<rparr>)"

definition body_toggle :: "string \<Rightarrow> bool \<Rightarrow> state \<Rightarrow> state" where
  "body_toggle c force st =
     emit (ClassToggle Body c force) (st\<lparr>body_classList := classList_toggle c force (body_classList st)\<rparr>)"

definition body_add :: "string \<Rightarrow> state \<Rightarrow> state" where
  "body_add c st = emit (ClassAdd Body c) (st\<lparr>body_classList := classList_add c (body_classList st)\<rparr>)"

definition body_remove :: "string \<Rightarrow> state \<Rightarrow> state" where
  "body_remove c st =
     emit (ClassRemove Body c) (st\<lparr>body_classList := classList_remove c (body_classList st)\<rparr>)"

text \<open>\<open>void body.offsetHeight\<close>: a layout read, with no change of the state.\<close>

definition body_offsetHeight :: "state \<Rightarrow> state" where
  "body_offsetHeight st = emit OffsetHeightRead st"

definition sun_toggle :: "string \<Rightarrow> bool \<Rightarrow> state \<Rightarrow> state" where
  "sun_toggle c force st =
     emit (ClassToggle SunIcon c force)
       (st\<lparr>themeToggleButton :=
          map_option (\<lambda>b. b\<lparr>sun_icon := map_option (classList_toggle c force) (sun_icon b)\<rparr>)
            (themeToggleButton st)\<rparr>)"

definition moon_toggle :: "string \<Rightarrow> bool \<Rightarrow> state \<Rightarrow> state" where
  "moon_toggle c force st =
     emit (ClassToggle MoonIcon c force)
       (st\<lparr>themeToggleButton :=
          map_option (\<lambda>b. b\<lparr>moon_icon := map_option (classList_toggle c force) (moon_icon b)\<rparr>)
            (themeToggleButton st)\<rparr>)"

definition button_setAttribute :: "string \<Rightarrow> state \<Rightarrow> state" where
  "button_setAttribute v st =
     emit (SetAttribute ''aria-label'' v)
       (st\<lparr>themeToggleButton := map_option (\<lambda>b. b\<lparr>aria_label := Some v\<rparr>) (themeToggleButton st)\<rparr>)"

definition style_backgroundColor :: "string \<Rightarrow> state \<Rightarrow> state" where
  "style_backgroundColor v st =
     emit (StyleSet ''backgroundColor'' v)
       (st\<lparr>themeOverlay := map_option (\<lambda>ov. ov\<lparr>backgroundColor := v\<rparr>) (themeOverlay st)\<rparr>)"

definition style_opacity :: "string \<Rightarrow> state \<Rightarrow> state" where
  "style_opacity v st =
     emit (StyleSet ''opacity'' v)
       (st\<lparr>themeOverlay := map_option (\<lambda>ov. ov\<lparr>opacity := v\<rparr>) (themeOverlay st)\<rparr>)"

definition style_transition :: "string \<Rightarrow> state \<Rightarrow> state" where
  "style_transition v st =
     emit (StyleSet ''transition'' v)
       (st\<lparr>themeOverlay := map_option (\<lambda>ov. ov\<lparr>transition := v\<rparr>) (themeOverlay st)\<rparr>)"

definition style_pointerEvents :: "string \<Rightarrow> state \<Rightarrow> state" where
  "style_pointerEvents v st =
     emit (StyleSet ''pointerEvents'' v)
       (st\<lparr>themeOverlay := map_option (\<lambda>ov. ov\<lparr>pointerEvents := v\<rparr>) (themeOverlay st)\<rparr>)"

text \<open>
  \<open>addEventListener('transitionend', l, { once })\<close>: a listener already registered (the
  same function object) is not registered twice.
\<close>

definition addEventListener :: "listener \<Rightarrow> bool \<Rightarrow> state \<Rightarrow> state" where
  "addEventListener l once st =
     emit (AddEventListener l once)
       (st\<lparr>themeOverlay :=
          map_option (\<lambda>ov. if l \<in> fst ` set (listeners ov) then ov
                           else ov\<lparr>listeners := listeners ov @ [(l, once)]\<rparr>)
            (themeOverlay st)\<rparr>)"

definition removeEventListener :: "listener \<Rightarrow> state \<Rightarrow> state" where
  "removeEventListener l st =
     emit (RemoveEventListener l)
       (st\<lparr>themeOverlay :=
          map_option (\<lambda>ov. ov\<lparr>listeners := filter (\<lambda>p. fst p \<noteq> l) (listeners ov)\<rparr>)
            (themeOverlay st)\<rparr>)"

definition requestAnimationFrame :: "frame_callback \<Rightarrow> state \<Rightarrow> state" where
  "requestAnimationFrame cb st =
     emit (RequestAnimationFrame cb) (st\<lparr>frame_callbacks := frame_callbacks st @ [cb]\<rparr>)"

text \<open>
  \<open>window.setTimeout\<close> returns a fresh identifier greater than zero; the pair is the
  state with the timer pending and the identifier.
\<close>

definition setTimeout :: "nat \<Rightarrow> state \<Rightarrow> state \<times> nat" where
  "setTimeout ms st =
     (let i = Suc (timer_counter st)
      in (emit (SetTimeout i ms) (st\<lparr>timers := timers st @ [(i, ms)], timer_counter := i\<rparr>), i))"

definition clearTimeout :: "nat \<Rightarrow> state \<Rightarrow> state" where
  "clearTimeout i st =
     emit (ClearTimeout i) (st\<lparr>timers := filter (\<lambda>p. fst p \<noteq> i) (timers st)\<rparr>)"

definition console_warn :: "string \<Rightarrow> state \<Rightarrow> state" where
  "console_warn m st = emit (ConsoleWarn m) st"

text \<open>Truthiness of a \<open>number | null\<close>: \<open>null\<close> and \<open>0\<close> are falsy.\<close>

fun truthy :: "nat option \<Rightarrow> bool" where
  "truthy None = False"
| "truthy (Some n) = (n \<noteq> 0)"

text \<open>\<open>String.prototype.trim\<close> on the characters a custom property's value can start or end with.\<close>

definition is_space :: "char \<Rightarrow> bool" where
  "is_space c = (c \<in> set [CHR '' '', CHR 0x09, CHR 0x0A, CHR 0x0B, CHR 0x0C, CHR 0x0D])"

definition trim :: "string \<Rightarrow> string" where
  "trim s = rev (dropWhile is_space (rev (dropWhile is_space s)))"

text \<open>
  The number in a template literal, \<open>`opacity ${phase1Duration}ms ease-in-out`\<close>: the
  decimal digits of a natural number.
\<close>

definition digit_char :: "nat \<Rightarrow> char" where
  "digit_char d = char_of (48 + d)"

fun string_of_nat :: "nat \<Rightarrow> string" where
  "string_of_nat n = (if n < 10 then [digit_char n] else string_of_nat (n div 10) @ [digit_char (n mod 10)])"

text \<open>
  \<open>parseFloat\<close> on the inline opacity: the value of the leading run of decimal digits, and
  \<open>None\<close> for \<open>NaN\<close> when the string (after leading white space) does not start with a
  digit. The script itself only ever writes \<open>'0'\<close> and \<open>'1'\<close> to \<open>style.opacity\<close>; signs,
  fractions and exponents are not modelled.
\<close>

definition is_digit :: "char \<Rightarrow> bool" where
  "is_digit c = ((48::nat) \<le> of_char c \<and> (of_char c :: nat) \<le> 57)"

definition digits_value :: "string \<Rightarrow> nat" where
  "digits_value ds = foldl (\<lambda>acc c. 10 * acc + ((of_char c :: nat) - 48)) (0::nat) ds"

definition parseFloat :: "string \<Rightarrow> nat option" where
  "parseFloat s =
     (let ds = takeWhile is_digit (dropWhile is_space s)
      in if ds = [] then None else Some (digits_value ds))"

text \<open>Comparisons with \<open>NaN\<close> are false.\<close>

fun num_less :: "nat option \<Rightarrow> nat \<Rightarrow> bool" where
  "num_less None n = False"
| "num_less (Some v) n = (v < n)"

fun num_greater :: "nat option \<Rightarrow> nat \<Rightarrow> bool" where
  "num_greater None n = False"
| "num_greater (Some v) n = (v > n)"

subsection \<open>The script's functions\<close>

text \<open>Lines 8-9: the icons exist only inside an existing toggle button.\<close>

definition sunIcon :: "state \<Rightarrow> string list option" where
  "sunIcon st = (case themeToggleButton st of None \<Rightarrow> None | Some b \<Rightarrow> sun_icon b)"

definition moonIcon :: "state \<Rightarrow> string list option" where
  "moonIcon st = (case themeToggleButton st of None \<Rightarrow> None | Some b \<Rightarrow> moon_icon b)"

text \<open>\<open>updateToggleButtonState\<close>, lines 20-35.\<close>

definition updateToggleButtonState :: "ThemeSetting \<Rightarrow> state \<Rightarrow> state" where
  "updateToggleButtonState setting st =
     (if sunIcon st = None \<or> moonIcon st = None \<or> themeToggleButton st = None then st
      else
        (let st1 = sun_toggle ''active'' (setting = Light) st;
             st2 = sun_toggle ''inactive'' (setting \<noteq> Light) st1;
             st3 = moon_toggle ''active'' (setting = Dark) st2;
             st4 = moon_toggle ''inactive'' (setting \<noteq> Dark) st3;
             ariaLabel = (if setting = Light then ''Tema atual: Claro. Mudar para tema escuro.''
                          else ''Tema atual: Escuro. Mudar para tema claro.'')
         in button_setAttribute ariaLabel st4))"

text \<open>\<open>setVisualThemeOnBody\<close>, lines 38-40.\<close>

definition setVisualThemeOnBody :: "ThemeSetting \<Rightarrow> state \<Rightarrow> state" where
  "setVisualThemeOnBody actualTheme st = body_toggle ''dark-mode'' (actualTheme = Dark) st"

text \<open>\<open>body.classList.contains('dark-mode') ? 'dark' : 'light'\<close>, lines 73 and 114.\<close>

definition bodyTheme :: "state \<Rightarrow> ThemeSetting" where
  "bodyTheme st = (if classList_contains ''dark-mode'' (body_classList st) then Dark else Light)"

text \<open>\<open>resetTransitionOverlay\<close>, lines 42-54.\<close>

definition resetTransitionOverlay :: "state \<Rightarrow> state" where
  "resetTransitionOverlay st =
     (let st1 = (if themeOverlay st \<noteq> None
                 then style_opacity ''0'' (style_transition ''none'' (style_pointerEvents ''none'' st))
                 else st);
          st2 = st1\<lparr>isTransitioning := False\<rparr>;
          st3 = (if truthy (transitionFailsafeTimeoutId st2)
                 then (case transitionFailsafeTimeoutId st2 of
                         Some i \<Rightarrow> (clearTimeout i st2)\<lparr>transitionFailsafeTimeoutId := None\<rparr>
                       | None \<Rightarrow> st2)
                 else st2)
      in body_remove ''theme-transition-active'' st3)"

text \<open>
  The callback of the failsafe timer, lines 109-119. It reads only module-level variables,
  so every failsafe timer runs the same function.
\<close>

definition failsafe :: "state \<Rightarrow> state" where
  "failsafe st =
     (if isTransitioning st then
        (let st1 = console_warn ''Theme transition (multi-phase) failsafe triggered.'' st;
             st2 = resetTransitionOverlay st1;
             finalActualTheme = currentThemeSetting st2;
             st3 = (if bodyTheme st2 \<noteq> finalActualTheme
                    then setVisualThemeOnBody finalActualTheme st2 else st2)
         in updateToggleButtonState (currentThemeSetting st3) st3)
      else st)"

text \<open>The inline opacity that the handlers read; they exist only on an existing overlay.\<close>

definition overlay_opacity :: "state \<Rightarrow> string" where
  "overlay_opacity st = (case themeOverlay st of None \<Rightarrow> [] | Some ov \<Rightarrow> opacity ov)"

datatype event_target = Overlay | OtherElement

text \<open>
  The three handlers, lines 121-154, applied to an event's \<open>target\<close> and \<open>propertyName\<close>.
  The durations are those of lines 86-88.
\<close>

definition phase1Duration :: nat where "phase1Duration = 500"
definition phase2Duration :: nat where "phase2Duration = 700"
definition phase3Duration :: nat where "phase3Duration = 500"

definition failsafeDuration :: nat where
  "failsafeDuration = phase1Duration + phase2Duration + phase3Duration + 500"

fun handle :: "listener \<Rightarrow> event_target \<Rightarrow> string \<Rightarrow> state \<Rightarrow> state" where
  "handle (HandlePhase1End k actualThemeToApply targetBgColor) tgt propertyName st =
     (if tgt \<noteq> Overlay \<or> propertyName \<noteq> ''opacity'' \<or> num_less (parseFloat (overlay_opacity st)) 1
      then st
      else
        (let st1 = removeEventListener (HandlePhase1End k actualThemeToApply targetBgColor) st;
             st2 = body_add ''theme-transition-active'' st1;
             st3 = body_offsetHeight st2;
             st4 = setVisualThemeOnBody actualThemeToApply st3;
             st5 = body_offsetHeight st4;
             st6 = body_remove ''theme-transition-active'' st5;
             st7 = style_transition
                     (''background-color '' @ string_of_nat phase2Duration @ ''ms ease-in-out'') st6;
             st8 = requestAnimationFrame (SetBackgroundColor targetBgColor) st7
         in addEventListener (HandlePhase2End k) True st8))"
| "handle (HandlePhase2End k) tgt propertyName st =
     (if tgt \<noteq> Overlay \<or> propertyName \<noteq> ''background-color'' then st
      else
        (let st1 = removeEventListener (HandlePhase2End k) st;
             st2 = style_transition
                     (''opacity '' @ string_of_nat phase3Duration @ ''ms ease-in-out'') st1;
             st3 = requestAnimationFrame (SetOpacity ''0'') st2
         in addEventListener (HandlePhase3End k) True st3))"
| "handle (HandlePhase3End k) tgt propertyName st =
     (if tgt \<noteq> Overlay \<or> propertyName \<noteq> ''opacity'' \<or> num_greater (parseFloat (overlay_opacity st)) 0
      then st
      else resetTransitionOverlay st)"

text \<open>
  Lines 84-156 of \<open>applyTheme\<close>: the start of a transition from the visible theme
  \<open>currentActualBodyTheme\<close> to \<open>actualThemeToApply\<close>.
\<close>

definition beginTransition :: "ThemeSetting \<Rightarrow> ThemeSetting \<Rightarrow> state \<Rightarrow> state" where
  "beginTransition actualThemeToApply currentActualBodyTheme st =
     (let k = closure_counter st;
          st0 = st\<lparr>closure_counter := Suc k, isTransitioning := True\<rparr>;
          currentBgColor = (if currentActualBodyTheme = Dark then trim (root_dark_bg_color st0)
                            else trim (root_bg_color st0));
          targetBgColor = (if actualThemeToApply = Dark then trim (root_dark_bg_color st0)
                           else trim (root_bg_color st0));
          st1 = style_backgroundColor currentBgColor st0;
          st2 = style_opacity ''0'' st1;
          st3 = style_transition (''opacity '' @ string_of_nat phase1Duration @ ''ms ease-in-out'') st2;
          st4 = style_pointerEvents ''auto'' st3;
          st5 = requestAnimationFrame (SetOpacity ''1'') st4;
          st6 = (if truthy (transitionFailsafeTimeoutId st5)
                 then (case transitionFailsafeTimeoutId st5 of
                         Some i \<Rightarrow> clearTimeout i st5 | None \<Rightarrow> st5)
                 else st5);
          (st7, i) = setTimeout failsafeDuration st6;
          st8 = st7\<lparr>transitionFailsafeTimeoutId := Some i\<rparr>
      in addEventListener (HandlePhase1End k actualThemeToApply targetBgColor) True st8)"

text \<open>\<open>applyTheme\<close>, lines 57-157.\<close>

definition applyTheme :: "ThemeSetting \<Rightarrow> bool \<Rightarrow> state \<Rightarrow> state" where
  "applyTheme newSetting isInitialLoad st =
     (if themeOverlay st = None \<or> sunIcon st = None \<or> moonIcon st = None then
        (let st1 = st\<lparr>currentThemeSetting := newSetting\<rparr>;
             st2 = localStorage_setItem ''themeSetting'' (setting_string newSetting) st1;
             st3 = setVisualThemeOnBody newSetting st2
         in if themeToggleButton st3 \<noteq> None then updateToggleButtonState newSetting st3 else st3)
      else
        (let st1 = st\<lparr>currentThemeSetting := newSetting\<rparr>;
             st2 = localStorage_setItem ''themeSetting'' (setting_string newSetting) st1;
             st3 = updateToggleButtonState newSetting st2;
             actualThemeToApply = newSetting;
             currentActualBodyTheme = bodyTheme st3
         in if isInitialLoad then setVisualThemeOnBody actualThemeToApply st3
            else if isTransitioning st3 \<or> actualThemeToApply = currentActualBodyTheme then st3
            else beginTransition actualThemeToApply currentActualBodyTheme st3))"

text \<open>
  The theme part of \<open>initComponents\<close>, lines 176-186. The click listener that lines
  188-193 register on the toggle button is \<open>toggle_click\<close> below.
\<close>

definition initComponents :: "state \<Rightarrow> state" where
  "initComponents st =
     (let storedSetting = localStorage st ''themeSetting'';
          st1 = (if storedSetting = Some ''dark'' then st\<lparr>currentThemeSetting := Dark\<rparr>
                 else
                   (let st' = st\<lparr>currentThemeSetting := Light\<rparr>
                    in if storedSetting \<noteq> Some ''light''
                       then localStorage_setItem ''themeSetting'' ''light'' st' else st'))
      in applyTheme (currentThemeSetting st1) True st1)"

definition toggle_click :: "state \<Rightarrow> state" where
  "toggle_click st =
     (if themeToggleButton st \<noteq> None
      then (let newTheme = (if currentThemeSetting st = Light then Dark else Light)
            in applyTheme newTheme False st)
      else st)"

subsection \<open>The browser's event loop\<close>

text \<open>
  An animation frame runs the callbacks that were queued before it, in order.
\<close>

fun run_frame_callback :: "frame_callback \<Rightarrow> state \<Rightarrow> state" where
  "run_frame_callback (SetOpacity v) st = style_opacity v st"
| "run_frame_callback (SetBackgroundColor v) st = style_backgroundColor v st"

definition animation_frame :: "state \<Rightarrow> state" where
  "animation_frame st = fold run_frame_callback (frame_callbacks st) (st\<lparr>frame_callbacks := []\<rparr>)"

text \<open>
  Dispatch of a \<open>transitionend\<close> event at the overlay: the listeners registered when the
  dispatch starts are invoked in order of registration, each only if it is still
  registered; a listener registered with \<open>once\<close> is removed before its callback runs.
\<close>

definition overlay_listeners :: "state \<Rightarrow> (listener \<times> bool) list" where
  "overlay_listeners st = (case themeOverlay st of None \<Rightarrow> [] | Some ov \<Rightarrow> listeners ov)"

definition drop_listener :: "listener \<Rightarrow> state \<Rightarrow> state" where
  "drop_listener l st =
     st\<lparr>themeOverlay :=
          map_option (\<lambda>ov. ov\<lparr>listeners := filter (\<lambda>p. fst p \<noteq> l) (listeners ov)\<rparr>)
            (themeOverlay st)\<rparr>"

definition invoke :: "event_target \<Rightarrow> string \<Rightarrow> listener \<times> bool \<Rightarrow> state \<Rightarrow> state" where
  "invoke tgt propertyName p st =
     (if fst p \<in> fst ` set (overlay_listeners st)
      then handle (fst p) tgt propertyName (if snd p then drop_listener (fst p) st else st)
      else st)"

definition dispatch_transitionend :: "event_target \<Rightarrow> string \<Rightarrow> state \<Rightarrow> state" where
  "dispatch_transitionend tgt propertyName st =
     fold (invoke tgt propertyName) (overlay_listeners st) st"

text \<open>A timer that is still pending fires once: it leaves the list and its callback runs.\<close>

definition fire_timer :: "nat \<Rightarrow> state \<Rightarrow> state" where
  "fire_timer i st =
     (if i \<in> fst ` set (timers st)
      then failsafe (st\<lparr>timers := filter (\<lambda>p. fst p \<noteq> i) (timers st)\<rparr>)
      else st)"

text \<open>
  The events the page reacts to once \<open>initComponents\<close> has run: a click on the toggle
  button, an animation frame, a \<open>transitionend\<close> event that reaches the overlay with the
  given target and property name, and the expiry of timer \<open>i\<close>.
\<close>

datatype event =
    Click
  | AnimationFrame
  | TransitionEnd event_target string
  | TimerFired nat

fun step :: "event \<Rightarrow> state \<Rightarrow> state" where
  "step Click st = toggle_click st"
| "step AnimationFrame st = animation_frame st"
| "step (TransitionEnd tgt propertyName) st = dispatch_transitionend tgt propertyName st"
| "step (TimerFired i) st = fire_timer i st"

definition run :: "event list \<Rightarrow> state \<Rightarrow> state" where
  "run evs st = fold step evs st"

text \<open>
  The state after the module's top level has run (lines 7-14) on a page with the given
  toggle button, overlay, body classes, stored items and root colours.
  \<open>currentThemeSetting\<close> is not assigned yet; the model holds Light there, which
  \<open>initComponents\<close> overwrites before anything reads it.
\<close>

definition module_load ::
  "toggle_button option \<Rightarrow> overlay option \<Rightarrow> string list \<Rightarrow> (string \<rightharpoonup> string) \<Rightarrow> string \<Rightarrow> string \<Rightarrow> state"
where
  "module_load btn ov classes store bg dark_bg =
     \<lparr>themeToggleButton = btn, themeOverlay = ov, body_classList = classes,
      isTransitioning = False, transitionFailsafeTimeoutId = None,
      currentThemeSetting = Light, localStorage = store,
      frame_callbacks = [], timers = [], timer_counter = 0, closure_counter = 0,
      root_bg_color = bg, root_dark_bg_color = dark_bg, trace = []\<rparr>"

subsection \<open>Properties of states\<close>

text \<open>The three elements whose absence sends \<open>applyTheme\<close> down its fallback (line 58).\<close>

definition present :: "state \<Rightarrow> bool" where
  "present st = (themeOverlay st \<noteq> None \<and> sunIcon st \<noteq> None \<and> moonIcon st \<noteq> None)"

text \<open>The accessible label of lines 28-33.\<close>

definition ariaLabelFor :: "ThemeSetting \<Rightarrow> string" where
  "ariaLabelFor s = (if s = Light then ''Tema atual: Claro. Mudar para tema escuro.''
                     else ''Tema atual: Escuro. Mudar para tema claro.'')"

text \<open>
  The toggle control shows setting \<open>s\<close>: the icon of \<open>s\<close> is \<open>active\<close> and not
  \<open>inactive\<close>, the other icon the reverse, and the label is the one of \<open>s\<close>.
\<close>

definition control_shows :: "ThemeSetting \<Rightarrow> state \<Rightarrow> bool" where
  "control_shows s st =
     (case themeToggleButton st of
        None \<Rightarrow> False
      | Some b \<Rightarrow>
          (case sun_icon b of
             None \<Rightarrow> False
           | Some sun \<Rightarrow>
               (case moon_icon b of
                  None \<Rightarrow> False
                | Some moon \<Rightarrow>
                    classList_contains ''active'' sun = (s = Light) \<and>
                    classList_contains ''inactive'' sun = (s \<noteq> Light) \<and>
                    classList_contains ''active'' moon = (s = Dark) \<and>
                    classList_contains ''inactive'' moon = (s \<noteq> Dark) \<and>
                    aria_label b = Some (ariaLabelFor s))))"

text \<open>Lines 67-70 of \<open>applyTheme\<close>, which every call on a complete page runs first.\<close>

definition bookkeeping :: "ThemeSetting \<Rightarrow> state \<Rightarrow> state" where
  "bookkeeping s st =
     updateToggleButtonState s
       (localStorage_setItem ''themeSetting'' (setting_string s) (st\<lparr>currentThemeSetting := s\<rparr>))"

text \<open>
  A page with the toggle button, its two icons and the overlay, a body without
  \<open>dark-mode\<close>, an empty store and the colours of \<open>index.css\<close>, as the module finds it.
\<close>

definition example_button :: toggle_button where
  "example_button = \<lparr>sun_icon = Some [''sun-icon''], moon_icon = Some [''moon-icon''], aria_label = None\<rparr>"

definition example_overlay :: overlay where
  "example_overlay =
     \<lparr>backgroundColor = [], opacity = [], transition = [], pointerEvents = [], listeners = []\<rparr>"

definition example_page :: state where
  "example_page =
     module_load (Some example_button) (Some example_overlay) [] Map.empty '' #F4EEFF'' '' #161224''"

text \<open>
  Nothing of a transition is left: the guard is down, the overlay has no listener, and no
  frame callback or timer is pending.
\<close>

definition idle :: "state \<Rightarrow> bool" where
  "idle st =
     (\<not> isTransitioning st \<and> overlay_listeners st = [] \<and> frame_callbacks st = [] \<and>
      timers st = [] \<and> transitionFailsafeTimeoutId st = None)"

text \<open>The background colour read for a theme at lines 92-97.\<close>

definition themeColor :: "ThemeSetting \<Rightarrow> state \<Rightarrow> string" where
  "themeColor s st = (if s = Dark then trim (root_dark_bg_color st) else trim (root_bg_color st))"

text \<open>The five writes of \<open>updateToggleButtonState\<close>, in order.\<close>

definition toggle_effects :: "ThemeSetting \<Rightarrow> effect list" where
  "toggle_effects s =
     [ClassToggle SunIcon ''active'' (s = Light), ClassToggle SunIcon ''inactive'' (s \<noteq> Light),
      ClassToggle MoonIcon ''active'' (s = Dark), ClassToggle MoonIcon ''inactive'' (s \<noteq> Dark),
      SetAttribute ''aria-label'' (ariaLabelFor s)]"

text \<open>
  The stations of a transition, two per phase of the protocol: the phase's style change
  is queued for the next frame, then it has been made and its completion is awaited.
  \<open>in_phase p k s bg i\<close> describes a state at station \<open>p\<close> of the transition to \<open>s\<close>
  that call \<open>k\<close> of \<open>applyTheme\<close> began, with target colour \<open>bg\<close> and failsafe timer
  \<open>i\<close>.
\<close>

datatype phase =
    FadeInRequested | FadingIn | CrossFadeRequested | CrossFading | FadeOutRequested | FadingOut

definition in_phase :: "phase \<Rightarrow> nat \<Rightarrow> ThemeSetting \<Rightarrow> string \<Rightarrow> nat \<Rightarrow> state \<Rightarrow> bool" where
  "in_phase p k s bg i st =
     (present st \<and> isTransitioning st \<and> i \<noteq> 0 \<and>
      timers st = [(i, failsafeDuration)] \<and> transitionFailsafeTimeoutId st = Some i \<and>
      (case p of
         FadeInRequested \<Rightarrow>
           overlay_listeners st = [(HandlePhase1End k s bg, True)] \<and>
           frame_callbacks st = [SetOpacity ''1''] \<and> overlay_opacity st = ''0'' \<and> bodyTheme st \<noteq> s
       | FadingIn \<Rightarrow>
           overlay_listeners st = [(HandlePhase1End k s bg, True)] \<and>
           frame_callbacks st = [] \<and> overlay_opacity st = ''1'' \<and> bodyTheme st \<noteq> s
       | CrossFadeRequested \<Rightarrow>
           overlay_listeners st = [(HandlePhase2End k, True)] \<and>
           frame_callbacks st = [SetBackgroundColor bg] \<and> overlay_opacity st = ''1'' \<and> bodyTheme st = s
       | CrossFading \<Rightarrow>
           overlay_listeners st = [(HandlePhase2End k, True)] \<and>
           frame_callbacks st = [] \<and> overlay_opacity st = ''1'' \<and> bodyTheme st = s
       | FadeOutRequested \<Rightarrow>
           overlay_listeners st = [(HandlePhase3End k, True)] \<and>
           frame_callbacks st = [SetOpacity ''0''] \<and> overlay_opacity st = ''1'' \<and> bodyTheme st = s
       | FadingOut \<Rightarrow>
           overlay_listeners st = [(HandlePhase3End k, True)] \<and>
           frame_callbacks st = [] \<and> overlay_opacity st = ''0'' \<and> bodyTheme st = s))"

text \<open>The setting, the store and the toggle button are the same in both states.\<close>

definition same_bookkeeping :: "state \<Rightarrow> state \<Rightarrow> bool" where
  "same_bookkeeping st st' =
     (currentThemeSetting st' = currentThemeSetting st \<and> localStorage st' = localStorage st \<and>
      themeToggleButton st' = themeToggleButton st)"

text \<open>Two more inline style properties of the overlay, for stating results.\<close>

definition overlay_pointerEvents :: "state \<Rightarrow> string" where
  "overlay_pointerEvents st = (case themeOverlay st of None \<Rightarrow> [] | Some ov \<Rightarrow> pointerEvents ov)"

definition overlay_transition :: "state \<Rightarrow> string" where
  "overlay_transition st = (case themeOverlay st of None \<Rightarrow> [] | Some ov \<Rightarrow> transition ov)"

text \<open>
  The events of an undisturbed transition after the call that begins it: for each phase
  the animation frame that makes the style change, then the genuine completion event.
\<close>

definition happy_path :: "event list" where
  "happy_path =
     [AnimationFrame, TransitionEnd Overlay ''opacity'',
      AnimationFrame, TransitionEnd Overlay ''background-color'',
      AnimationFrame, TransitionEnd Overlay ''opacity'']"

text \<open>The station reached after \<open>n\<close> events of the undisturbed transition.\<close>

definition station :: "nat \<Rightarrow> phase" where
  "station n =
     [FadeInRequested, FadingIn, CrossFadeRequested, CrossFading, FadeOutRequested, FadingOut] ! n"

text \<open>
  State \<open>f\<close> is the settled end of a transition to \<open>s\<close> that passed through \<open>st\<close>: idle,
  showing \<open>s\<close>, with the bookkeeping of \<open>st\<close>.
\<close>

definition finished :: "ThemeSetting \<Rightarrow> state \<Rightarrow> state \<Rightarrow> bool" where
  "finished s st f = (idle f \<and> present f \<and> bodyTheme f = s \<and> same_bookkeeping st f)"

text \<open>
  A second call \<open>applyTheme(s2)\<close> made after \<open>n\<close> events of the undisturbed transition
  to \<open>s1\<close>, which then runs to its end.
\<close>

definition interrupted :: "nat \<Rightarrow> ThemeSetting \<Rightarrow> ThemeSetting \<Rightarrow> state \<Rightarrow> state" where
  "interrupted n s1 s2 st =
     run (drop n happy_path)
       (applyTheme s2 False (run (take n happy_path) (applyTheme s1 False st)))"

text \<open>A page whose toggle button lacks the sun icon.\<close>

definition page_without_sun_icon :: state where
  "page_without_sun_icon =
     module_load (Some \<lparr>sun_icon = None, moon_icon = Some [''moon-icon''], aria_label = None\<rparr>)
       (Some example_overlay) [] Map.empty '' #F4EEFF'' '' #161224''"

text \<open>
  The guard, the failsafe timer and the page agree: while a transition is in flight the
  overlay and the icons exist and exactly the failsafe timer recorded in
  \<open>transitionFailsafeTimeoutId\<close> is pending, with the failsafe delay; otherwise no timer is
  pending or recorded.
\<close>

definition consistent :: "state \<Rightarrow> bool" where
  "consistent st =
     (if isTransitioning st
      then present st \<and>
           (case transitionFailsafeTimeoutId st of
              None \<Rightarrow> False
            | Some i \<Rightarrow> i \<noteq> 0 \<and> timers st = [(i, failsafeDuration)])
      else timers st = [] \<and> transitionFailsafeTimeoutId st = None)"

text \<open>A write to the store that puts \<open>'light'\<close> or \<open>'dark'\<close> under \<open>themeSetting\<close>; other effects pass.\<close>

fun valid_write :: "effect \<Rightarrow> bool" where
  "valid_write (SetItem k v) = (k = ''themeSetting'' \<and> (v = ''light'' \<or> v = ''dark''))"
| "valid_write _ = True"

definition store_valid :: "state \<Rightarrow> bool" where
  "store_valid st =
     (list_all valid_write (trace st) \<and>
      (localStorage st ''themeSetting'' = Some ''light'' \<or>
       localStorage st ''themeSetting'' = Some ''dark''))"

text \<open>
  The example page once \<open>applyTheme('dark')\<close> has begun a transition, and after the
  frame that sets the overlay's opacity to 1.
\<close>

definition fade_in_requested_example :: state where
  "fade_in_requested_example = applyTheme Dark False example_page"

definition fading_in_example :: state where
  "fading_in_example = animation_frame fade_in_requested_example"

subsection \<open>The anchor click handler\<close>

text \<open>
  The click handler of lines 219-249 reads the link's \<open>href\<close>, looks the target up with
  \<open>document.querySelector\<close> (which throws on a string that is no selector), reads the
  header's computed position and height, the target's top in the viewport and the page's
  scroll offset, and may call \<open>preventDefault\<close> and \<open>window.scrollTo\<close>. JavaScript numbers
  are modelled as reals.
\<close>

datatype dom_error = SyntaxError

record header_element =
  position :: string
  offsetHeight :: int

text \<open>
  \<open>querySelector\<close> maps a selector to an exception, to \<open>None\<close> for no match, or to
  the matched element, of which the handler reads only \<open>getBoundingClientRect().top\<close>.
\<close>

record document =
  querySelector :: "string \<Rightarrow> dom_error + real option"
  header :: "header_element option"
  pageYOffset :: real

datatype scroll_effect = PreventDefault | ScrollTo real string

definition startsWith :: "string \<Rightarrow> string \<Rightarrow> bool" where
  "startsWith p s = (take (length p) s = p)"

text \<open>The body of the \<open>try\<close> block, lines 224-244.\<close>

definition anchor_try :: "document \<Rightarrow> string \<Rightarrow> dom_error + scroll_effect list" where
  "anchor_try doc href =
     (case querySelector doc href of
        Inl e \<Rightarrow> Inl e
      | Inr None \<Rightarrow> Inr []
      | Inr (Some rectTop) \<Rightarrow>
          (let headerStickyOffset = 15;
               totalHeaderHeight =
                 (case header doc of
                    None \<Rightarrow> 0
                  | Some h \<Rightarrow>
                      if position h = ''sticky'' \<or> position h = ''fixed''
                      then real_of_int (offsetHeight h) + headerStickyOffset
                      else real_of_int (offsetHeight h));
               elementPosition = rectTop + pageYOffset doc;
               offsetPosition = elementPosition - totalHeaderHeight
           in Inr [PreventDefault, ScrollTo offsetPosition ''smooth'']))"

text \<open>
  The handler, lines 220-248, on the value of \<open>getAttribute('href')\<close> (\<open>None\<close> for
  \<open>null\<close>); the \<open>catch\<close> clause swallows what the \<open>try\<close> block throws. \<open>Inl\<close> would be
  an exception leaving the handler.
\<close>

definition anchor_click :: "document \<Rightarrow> string option \<Rightarrow> dom_error + scroll_effect list" where
  "anchor_click doc href =
     (case href of
        None \<Rightarrow> Inr []
      | Some h \<Rightarrow>
          if h = ''#'' \<or> h = [] \<or> \<not> startsWith ''#'' h then Inr []
          else (case anchor_try doc h of Inl e \<Rightarrow> Inr [] | Inr effects \<Rightarrow> Inr effects))"

text \<open>A document with a sticky header of height 70 and one element \<open>#sobre\<close> at 500.5.\<close>

definition example_document :: document where
  "example_document =
     \<lparr>querySelector = (\<lambda>s. if s = ''#sobre'' then Inr (Some 500.5)
                             else if s = ''#1x'' then Inl SyntaxError else Inr None),
      header = Some \<lparr>position = ''sticky'', offsetHeight = 70\<rparr>,
      pageYOffset = 120\<rparr>"

section \<open>Basic facts\<close>

lemmas prim_defs = emit_def localStorage_setItem_def body_toggle_def body_add_def body_remove_def
  body_offsetHeight_def sun_toggle_def moon_toggle_def button_setAttribute_def
  style_backgroundColor_def style_opacity_def style_transition_def style_pointerEvents_def
  addEventListener_def removeEventListener_def requestAnimationFrame_def setTimeout_def
  clearTimeout_def console_warn_def

lemma contains_toggle_same: "classList_contains c (classList_toggle c f cs) = f"
  by (simp add: classList_contains_def classList_toggle_def classList_add_def classList_remove_def)

lemma contains_toggle_other:
  "c \<noteq> d \<Longrightarrow> classList_contains c (classList_toggle d f cs) = classList_contains c cs"
  by (simp add: classList_contains_def classList_toggle_def classList_add_def classList_remove_def)

lemma contains_add_other:
  "c \<noteq> d \<Longrightarrow> classList_contains c (classList_add d cs) = classList_contains c cs"
  by (simp add: classList_contains_def classList_add_def)

lemma contains_remove_other:
  "c \<noteq> d \<Longrightarrow> classList_contains c (classList_remove d cs) = classList_contains c cs"
  by (simp add: classList_contains_def classList_remove_def)

lemma contains_remove_same: "\<not> classList_contains c (classList_remove c cs)"
  by (simp add: classList_contains_def classList_remove_def)

lemma toggle_keeps:
  "classList_contains c cs = f \<Longrightarrow> classList_toggle c f cs = cs"
  by (auto simp add: classList_contains_def classList_toggle_def classList_add_def classList_remove_def)

lemma updateToggleButtonState_fields:
  "themeOverlay (updateToggleButtonState s st) = themeOverlay st"
  "body_classList (updateToggleButtonState s st) = body_classList st"
  "isTransitioning (updateToggleButtonState s st) = isTransitioning st"
  "transitionFailsafeTimeoutId (updateToggleButtonState s st) = transitionFailsafeTimeoutId st"
  "currentThemeSetting (updateToggleButtonState s st) = currentThemeSetting st"
  "localStorage (updateToggleButtonState s st) = localStorage st"
  "frame_callbacks (updateToggleButtonState s st) = frame_callbacks st"
  "timers (updateToggleButtonState s st) = timers st"
  "timer_counter (updateToggleButtonState s st) = timer_counter st"
  "closure_counter (updateToggleButtonState s st) = closure_counter st"
  "root_bg_color (updateToggleButtonState s st) = root_bg_color st"
  "root_dark_bg_color (updateToggleButtonState s st) = root_dark_bg_color st"
  by (simp_all add: updateToggleButtonState_def prim_defs Let_def)

lemma updateToggleButtonState_icons:
  "(sunIcon (updateToggleButtonState s st) = None) = (sunIcon st = None)"
  "(moonIcon (updateToggleButtonState s st) = None) = (moonIcon st = None)"
  "(themeToggleButton (updateToggleButtonState s st) = None) = (themeToggleButton st = None)"
  by (auto simp add: updateToggleButtonState_def sunIcon_def moonIcon_def prim_defs Let_def
        split: option.splits)

lemma updateToggleButtonState_shows:
  "sunIcon st \<noteq> None \<Longrightarrow> moonIcon st \<noteq> None \<Longrightarrow> control_shows s (updateToggleButtonState s st)"
  by (auto simp add: updateToggleButtonState_def sunIcon_def moonIcon_def prim_defs Let_def
        control_shows_def ariaLabelFor_def contains_toggle_same contains_toggle_other
        split: option.splits)

lemma updateToggleButtonState_noop:
  "sunIcon st = None \<or> moonIcon st = None \<Longrightarrow> updateToggleButtonState s st = st"
  by (auto simp add: updateToggleButtonState_def)

lemma setVisualThemeOnBody_fields:
  "themeOverlay (setVisualThemeOnBody s st) = themeOverlay st"
  "themeToggleButton (setVisualThemeOnBody s st) = themeToggleButton st"
  "isTransitioning (setVisualThemeOnBody s st) = isTransitioning st"
  "transitionFailsafeTimeoutId (setVisualThemeOnBody s st) = transitionFailsafeTimeoutId st"
  "currentThemeSetting (setVisualThemeOnBody s st) = currentThemeSetting st"
  "localStorage (setVisualThemeOnBody s st) = localStorage st"
  "frame_callbacks (setVisualThemeOnBody s st) = frame_callbacks st"
  "timers (setVisualThemeOnBody s st) = timers st"
  "timer_counter (setVisualThemeOnBody s st) = timer_counter st"
  "closure_counter (setVisualThemeOnBody s st) = closure_counter st"
  "root_bg_color (setVisualThemeOnBody s st) = root_bg_color st"
  "root_dark_bg_color (setVisualThemeOnBody s st) = root_dark_bg_color st"
  "sunIcon (setVisualThemeOnBody s st) = sunIcon st"
  "moonIcon (setVisualThemeOnBody s st) = moonIcon st"
  "control_shows t (setVisualThemeOnBody s st) = control_shows t st"
  by (simp_all add: setVisualThemeOnBody_def sunIcon_def moonIcon_def control_shows_def prim_defs)

lemma bodyTheme_setVisualThemeOnBody: "bodyTheme (setVisualThemeOnBody s st) = s"
  by (cases s) (simp_all add: setVisualThemeOnBody_def bodyTheme_def prim_defs contains_toggle_same)

lemma setVisualThemeOnBody_same:
  "bodyTheme st = s \<Longrightarrow> body_classList (setVisualThemeOnBody s st) = body_classList st"
  by (cases s) (auto simp add: setVisualThemeOnBody_def bodyTheme_def prim_defs toggle_keeps
        split: if_splits)

lemma storage_fields:
  "themeOverlay (localStorage_setItem k v st) = themeOverlay st"
  "themeToggleButton (localStorage_setItem k v st) = themeToggleButton st"
  "body_classList (localStorage_setItem k v st) = body_classList st"
  "isTransitioning (localStorage_setItem k v st) = isTransitioning st"
  "transitionFailsafeTimeoutId (localStorage_setItem k v st) = transitionFailsafeTimeoutId st"
  "currentThemeSetting (localStorage_setItem k v st) = currentThemeSetting st"
  "localStorage (localStorage_setItem k v st) = (localStorage st)(k \<mapsto> v)"
  "frame_callbacks (localStorage_setItem k v st) = frame_callbacks st"
  "timers (localStorage_setItem k v st) = timers st"
  "timer_counter (localStorage_setItem k v st) = timer_counter st"
  "closure_counter (localStorage_setItem k v st) = closure_counter st"
  "root_bg_color (localStorage_setItem k v st) = root_bg_color st"
  "root_dark_bg_color (localStorage_setItem k v st) = root_dark_bg_color st"
  "sunIcon (localStorage_setItem k v st) = sunIcon st"
  "moonIcon (localStorage_setItem k v st) = moonIcon st"
  by (simp_all add: sunIcon_def moonIcon_def prim_defs)

lemma icons_currentThemeSetting_update:
  "sunIcon (st\<lparr>currentThemeSetting := s\<rparr>) = sunIcon st"
  "moonIcon (st\<lparr>currentThemeSetting := s\<rparr>) = moonIcon st"
  by (simp_all add: sunIcon_def moonIcon_def)

lemma bodyTheme_cong: "body_classList st' = body_classList st \<Longrightarrow> bodyTheme st' = bodyTheme st"
  by (simp add: bodyTheme_def)

lemma bookkeeping_fields:
  "themeOverlay (bookkeeping s st) = themeOverlay st"
  "body_classList (bookkeeping s st) = body_classList st"
  "isTransitioning (bookkeeping s st) = isTransitioning st"
  "transitionFailsafeTimeoutId (bookkeeping s st) = transitionFailsafeTimeoutId st"
  "currentThemeSetting (bookkeeping s st) = s"
  "localStorage (bookkeeping s st) = (localStorage st)(''themeSetting'' \<mapsto> setting_string s)"
  "frame_callbacks (bookkeeping s st) = frame_callbacks st"
  "timers (bookkeeping s st) = timers st"
  "timer_counter (bookkeeping s st) = timer_counter st"
  "closure_counter (bookkeeping s st) = closure_counter st"
  "root_bg_color (bookkeeping s st) = root_bg_color st"
  "root_dark_bg_color (bookkeeping s st) = root_dark_bg_color st"
  "bodyTheme (bookkeeping s st) = bodyTheme st"
  by (simp_all add: bookkeeping_def updateToggleButtonState_fields storage_fields bodyTheme_def)

lemma bookkeeping_icons:
  "(sunIcon (bookkeeping s st) = None) = (sunIcon st = None)"
  "(moonIcon (bookkeeping s st) = None) = (moonIcon st = None)"
  "(themeToggleButton (bookkeeping s st) = None) = (themeToggleButton st = None)"
  by (simp_all add: bookkeeping_def updateToggleButtonState_icons storage_fields
        icons_currentThemeSetting_update)

lemma bookkeeping_shows:
  "sunIcon st \<noteq> None \<Longrightarrow> moonIcon st \<noteq> None \<Longrightarrow> control_shows s (bookkeeping s st)"
  by (simp add: bookkeeping_def updateToggleButtonState_shows storage_fields
        icons_currentThemeSetting_update)

lemma present_bookkeeping: "present (bookkeeping s st) = present st"
  by (simp add: present_def bookkeeping_fields bookkeeping_icons)

text \<open>The two paths of \<open>applyTheme\<close>.\<close>

lemma applyTheme_fallback:
  "\<not> present st \<Longrightarrow>
   applyTheme s i st =
     (let st3 = setVisualThemeOnBody s
                  (localStorage_setItem ''themeSetting'' (setting_string s)
                     (st\<lparr>currentThemeSetting := s\<rparr>))
      in if themeToggleButton st \<noteq> None then updateToggleButtonState s st3 else st3)"
  by (auto simp add: applyTheme_def present_def Let_def setVisualThemeOnBody_fields storage_fields)

lemma applyTheme_main:
  "present st \<Longrightarrow>
   applyTheme s i st =
     (if i then setVisualThemeOnBody s (bookkeeping s st)
      else if isTransitioning st \<or> s = bodyTheme st then bookkeeping s st
      else beginTransition s (bodyTheme st) (bookkeeping s st))"
  using bookkeeping_fields(3,13) [of s st]
  by (auto simp add: applyTheme_def present_def Let_def bookkeeping_def)

text \<open>
  C5. For every setting \<open>s\<close> and every state, \<open>applyTheme(s, true)\<close> stores \<open>s\<close> under
  \<open>themeSetting\<close>, makes \<open>s\<close> the current setting, leaves the body showing the theme
  \<open>s\<close>, makes the toggle control show \<open>s\<close> where the button has both icons, and leaves
  the overlay (style and listeners), the queued frame callbacks, the timers, the failsafe
  timer identifier and the in-flight guard as they were.
\<close>

theorem applyTheme_initial_load:
  "localStorage (applyTheme s True st) ''themeSetting'' = Some (setting_string s) \<and>
   currentThemeSetting (applyTheme s True st) = s \<and>
   bodyTheme (applyTheme s True st) = s \<and>
   (sunIcon st \<noteq> None \<and> moonIcon st \<noteq> None \<longrightarrow> control_shows s (applyTheme s True st)) \<and>
   themeOverlay (applyTheme s True st) = themeOverlay st \<and>
   frame_callbacks (applyTheme s True st) = frame_callbacks st \<and>
   timers (applyTheme s True st) = timers st \<and>
   transitionFailsafeTimeoutId (applyTheme s True st) = transitionFailsafeTimeoutId st \<and>
   isTransitioning (applyTheme s True st) = isTransitioning st"
proof (cases "present st")
  case True
  then show ?thesis
    by (simp add: applyTheme_main setVisualThemeOnBody_fields bookkeeping_fields
          bodyTheme_setVisualThemeOnBody bookkeeping_shows)
next
  case False
  have icons: "sunIcon st \<noteq> None \<Longrightarrow> themeToggleButton st \<noteq> None"
    by (auto simp add: sunIcon_def split: option.splits)
  have body: "bodyTheme (updateToggleButtonState s x) = bodyTheme x" for x
    by (simp add: bodyTheme_def updateToggleButtonState_fields)
  from False icons show ?thesis
    by (auto simp add: applyTheme_fallback Let_def setVisualThemeOnBody_fields storage_fields
          updateToggleButtonState_fields bodyTheme_setVisualThemeOnBody body
          updateToggleButtonState_shows icons_currentThemeSetting_update)
qed

theorem applyTheme_initial_load_witness:
  "sunIcon example_page \<noteq> None \<and> moonIcon example_page \<noteq> None \<and>
   control_shows Dark (applyTheme Dark True example_page)"
  using applyTheme_initial_load [of Dark example_page]
  by (simp add: example_page_def example_button_def module_load_def sunIcon_def moonIcon_def)

section \<open>The transition, phase by phase\<close>

lemma string_of_nat_500: "string_of_nat 500 = ''500''" by code_simp

lemma string_of_nat_700: "string_of_nat 700 = ''700''" by code_simp

lemma failsafeDuration_value: "failsafeDuration = 2200"
  by (simp add: failsafeDuration_def phase1Duration_def phase2Duration_def phase3Duration_def)

lemma parseFloat_0: "parseFloat ''0'' = Some 0" by code_simp

lemma parseFloat_1: "parseFloat ''1'' = Some 1" by code_simp

lemma bookkeeping_trace:
  "sunIcon st \<noteq> None \<Longrightarrow> moonIcon st \<noteq> None \<Longrightarrow>
   trace (bookkeeping s st) = trace st @ SetItem ''themeSetting'' (setting_string s) # toggle_effects s"
  by (auto simp add: bookkeeping_def updateToggleButtonState_def sunIcon_def moonIcon_def
        prim_defs toggle_effects_def ariaLabelFor_def Let_def split: option.splits)

lemma bookkeeping_overlay_obs:
  "overlay_listeners (bookkeeping s st) = overlay_listeners st"
  "overlay_opacity (bookkeeping s st) = overlay_opacity st"
  by (simp_all add: overlay_listeners_def overlay_opacity_def bookkeeping_fields)

lemma beginTransition_phase:
  assumes "present st" "idle st" "bodyTheme st = c" "c \<noteq> s"
  shows "in_phase FadeInRequested (closure_counter st) s (themeColor s st) (Suc (timer_counter st))
           (beginTransition s c st)"
    and "trace (beginTransition s c st) = trace st @
           [StyleSet ''backgroundColor'' (themeColor c st), StyleSet ''opacity'' ''0'',
            StyleSet ''transition'' ''opacity 500ms ease-in-out'', StyleSet ''pointerEvents'' ''auto'',
            RequestAnimationFrame (SetOpacity ''1''), SetTimeout (Suc (timer_counter st)) 2200,
            AddEventListener (HandlePhase1End (closure_counter st) s (themeColor s st)) True]"
    and "currentThemeSetting (beginTransition s c st) = currentThemeSetting st"
    and "localStorage (beginTransition s c st) = localStorage st"
    and "themeToggleButton (beginTransition s c st) = themeToggleButton st"
    and "root_bg_color (beginTransition s c st) = root_bg_color st"
    and "root_dark_bg_color (beginTransition s c st) = root_dark_bg_color st"
proof -
  from assms(1) obtain ov where ov: "themeOverlay st = Some ov"
    by (auto simp add: present_def)
  from assms(2) ov have l: "listeners ov = []" and f: "frame_callbacks st = []"
    and t: "timers st = []" and i: "transitionFailsafeTimeoutId st = None"
    by (simp_all add: idle_def overlay_listeners_def)
  note facts = ov l f t i
  show "in_phase FadeInRequested (closure_counter st) s (themeColor s st) (Suc (timer_counter st))
           (beginTransition s c st)"
    using assms facts
    by (simp add: in_phase_def beginTransition_def prim_defs Let_def present_def sunIcon_def
          moonIcon_def overlay_listeners_def overlay_opacity_def bodyTheme_def themeColor_def
          del: string_of_nat.simps)
  show "trace (beginTransition s c st) = trace st @
           [StyleSet ''backgroundColor'' (themeColor c st), StyleSet ''opacity'' ''0'',
            StyleSet ''transition'' ''opacity 500ms ease-in-out'', StyleSet ''pointerEvents'' ''auto'',
            RequestAnimationFrame (SetOpacity ''1''), SetTimeout (Suc (timer_counter st)) 2200,
            AddEventListener (HandlePhase1End (closure_counter st) s (themeColor s st)) True]"
    using facts
    by (simp add: beginTransition_def prim_defs Let_def themeColor_def phase1Duration_def
          string_of_nat_500 failsafeDuration_value del: string_of_nat.simps)
  show "currentThemeSetting (beginTransition s c st) = currentThemeSetting st"
    "localStorage (beginTransition s c st) = localStorage st"
    "themeToggleButton (beginTransition s c st) = themeToggleButton st"
    "root_bg_color (beginTransition s c st) = root_bg_color st"
    "root_dark_bg_color (beginTransition s c st) = root_dark_bg_color st"
    using facts
    by (simp_all add: beginTransition_def prim_defs Let_def del: string_of_nat.simps)
qed

lemmas phase_unfold = in_phase_def present_def sunIcon_def moonIcon_def overlay_listeners_def
  overlay_opacity_def bodyTheme_def same_bookkeeping_def

lemma frame_fade_in:
  assumes "in_phase FadeInRequested k s bg i st"
  shows "in_phase FadingIn k s bg i (animation_frame st) \<and>
         trace (animation_frame st) = trace st @ [StyleSet ''opacity'' ''1''] \<and>
         same_bookkeeping st (animation_frame st)"
proof -
  from assms obtain ov where "themeOverlay st = Some ov"
    by (auto simp add: in_phase_def present_def)
  with assms show ?thesis
    by (simp add: phase_unfold animation_frame_def prim_defs)
qed

lemma phase1_end:
  assumes "in_phase FadingIn k s bg i st"
  shows "in_phase CrossFadeRequested k s bg i (dispatch_transitionend Overlay ''opacity'' st) \<and>
         trace (dispatch_transitionend Overlay ''opacity'' st) = trace st @
           [RemoveEventListener (HandlePhase1End k s bg),
            ClassAdd Body ''theme-transition-active'', OffsetHeightRead,
            ClassToggle Body ''dark-mode'' (s = Dark), OffsetHeightRead,
            ClassRemove Body ''theme-transition-active'',
            StyleSet ''transition'' ''background-color 700ms ease-in-out'',
            RequestAnimationFrame (SetBackgroundColor bg),
            AddEventListener (HandlePhase2End k) True] \<and>
         same_bookkeeping st (dispatch_transitionend Overlay ''opacity'' st)"
proof -
  from assms obtain ov where "themeOverlay st = Some ov"
    by (auto simp add: in_phase_def present_def)
  with assms show ?thesis
    by (cases s)
       (simp_all add: phase_unfold dispatch_transitionend_def invoke_def drop_listener_def
          setVisualThemeOnBody_def prim_defs Let_def parseFloat_1 phase2Duration_def
          string_of_nat_700 contains_remove_other contains_toggle_same
          del: string_of_nat.simps)
qed

lemma frame_cross_fade:
  assumes "in_phase CrossFadeRequested k s bg i st"
  shows "in_phase CrossFading k s bg i (animation_frame st) \<and>
         trace (animation_frame st) = trace st @ [StyleSet ''backgroundColor'' bg] \<and>
         same_bookkeeping st (animation_frame st)"
proof -
  from assms obtain ov where "themeOverlay st = Some ov"
    by (auto simp add: in_phase_def present_def)
  with assms show ?thesis
    by (simp add: phase_unfold animation_frame_def prim_defs)
qed

lemma phase2_end:
  assumes "in_phase CrossFading k s bg i st"
  shows "in_phase FadeOutRequested k s bg i (dispatch_transitionend Overlay ''background-color'' st) \<and>
         trace (dispatch_transitionend Overlay ''background-color'' st) = trace st @
           [RemoveEventListener (HandlePhase2End k),
            StyleSet ''transition'' ''opacity 500ms ease-in-out'',
            RequestAnimationFrame (SetOpacity ''0''),
            AddEventListener (HandlePhase3End k) True] \<and>
         same_bookkeeping st (dispatch_transitionend Overlay ''background-color'' st)"
proof -
  from assms obtain ov where "themeOverlay st = Some ov"
    by (auto simp add: in_phase_def present_def)
  with assms show ?thesis
    by (simp add: phase_unfold dispatch_transitionend_def invoke_def drop_listener_def
          prim_defs Let_def phase3Duration_def string_of_nat_500 del: string_of_nat.simps)
qed

lemma frame_fade_out:
  assumes "in_phase FadeOutRequested k s bg i st"
  shows "in_phase FadingOut k s bg i (animation_frame st) \<and>
         trace (animation_frame st) = trace st @ [StyleSet ''opacity'' ''0''] \<and>
         same_bookkeeping st (animation_frame st)"
proof -
  from assms obtain ov where "themeOverlay st = Some ov"
    by (auto simp add: in_phase_def present_def)
  with assms show ?thesis
    by (simp add: phase_unfold animation_frame_def prim_defs)
qed

lemma phase3_end:
  assumes "in_phase FadingOut k s bg i st"
  shows "idle (dispatch_transitionend Overlay ''opacity'' st) \<and>
         present (dispatch_transitionend Overlay ''opacity'' st) \<and>
         bodyTheme (dispatch_transitionend Overlay ''opacity'' st) = s \<and>
         overlay_opacity (dispatch_transitionend Overlay ''opacity'' st) = ''0'' \<and>
         overlay_pointerEvents (dispatch_transitionend Overlay ''opacity'' st) = ''none'' \<and>
         overlay_transition (dispatch_transitionend Overlay ''opacity'' st) = ''none'' \<and>
         trace (dispatch_transitionend Overlay ''opacity'' st) = trace st @
           [StyleSet ''pointerEvents'' ''none'', StyleSet ''transition'' ''none'',
            StyleSet ''opacity'' ''0'', ClearTimeout i,
            ClassRemove Body ''theme-transition-active''] \<and>
         same_bookkeeping st (dispatch_transitionend Overlay ''opacity'' st)"
proof -
  from assms obtain ov where "themeOverlay st = Some ov"
    by (auto simp add: in_phase_def present_def)
  with assms show ?thesis
    by (simp add: phase_unfold idle_def overlay_pointerEvents_def overlay_transition_def
          dispatch_transitionend_def invoke_def drop_listener_def resetTransitionOverlay_def
          prim_defs Let_def parseFloat_0 contains_remove_other)
qed

lemma apply_in_flight:
  assumes "in_phase p k s bg i st"
  shows "applyTheme s2 False st = bookkeeping s2 st" and "in_phase p k s bg i (bookkeeping s2 st)"
proof -
  from assms have pr: "present st" and tr: "isTransitioning st"
    by (simp_all add: in_phase_def)
  show "applyTheme s2 False st = bookkeeping s2 st"
    using pr tr by (simp add: applyTheme_main)
  show "in_phase p k s bg i (bookkeeping s2 st)"
    using assms
    by (cases p)
       (simp_all add: in_phase_def present_bookkeeping bookkeeping_fields bookkeeping_overlay_obs)
qed

lemma run_Nil: "run [] st = st"
  by (simp add: run_def)

lemma run_Cons: "run (e # es) st = run es (step e st)"
  by (simp add: run_def)

lemma control_shows_cong:
  "themeToggleButton st' = themeToggleButton st \<Longrightarrow> control_shows s st' = control_shows s st"
  by (simp add: control_shows_def)

lemma idle_bookkeeping: "idle (bookkeeping s st) = idle st"
  by (simp add: idle_def bookkeeping_fields bookkeeping_overlay_obs)

lemma themeColor_bookkeeping: "themeColor c (bookkeeping s st) = themeColor c st"
  by (simp add: themeColor_def bookkeeping_fields)

lemma applyTheme_begins:
  assumes "present st" "idle st" "bodyTheme st \<noteq> s"
  shows "in_phase FadeInRequested (closure_counter st) s (themeColor s st) (Suc (timer_counter st))
           (applyTheme s False st)"
    and "trace (applyTheme s False st) = trace st @
           SetItem ''themeSetting'' (setting_string s) # toggle_effects s @
           [StyleSet ''backgroundColor'' (themeColor (bodyTheme st) st), StyleSet ''opacity'' ''0'',
            StyleSet ''transition'' ''opacity 500ms ease-in-out'', StyleSet ''pointerEvents'' ''auto'',
            RequestAnimationFrame (SetOpacity ''1''), SetTimeout (Suc (timer_counter st)) 2200,
            AddEventListener (HandlePhase1End (closure_counter st) s (themeColor s st)) True]"
    and "currentThemeSetting (applyTheme s False st) = s"
    and "localStorage (applyTheme s False st) = (localStorage st)(''themeSetting'' \<mapsto> setting_string s)"
    and "control_shows s (applyTheme s False st)"
proof -
  let ?bk = "bookkeeping s st"
  from assms have eq: "applyTheme s False st = beginTransition s (bodyTheme st) ?bk"
    by (auto simp add: applyTheme_main idle_def)
  have pr: "present ?bk" and idl: "idle ?bk" and bt: "bodyTheme ?bk = bodyTheme st"
    using assms by (simp_all add: present_bookkeeping idle_bookkeeping bookkeeping_fields)
  from assms(3) have ne: "bodyTheme st \<noteq> s" .
  note bp = beginTransition_phase [OF pr idl bt ne]
  from assms(1) have icons: "sunIcon st \<noteq> None" "moonIcon st \<noteq> None"
    by (simp_all add: present_def)
  show "in_phase FadeInRequested (closure_counter st) s (themeColor s st) (Suc (timer_counter st))
           (applyTheme s False st)"
    using bp(1) by (simp add: eq bookkeeping_fields themeColor_bookkeeping)
  show "trace (applyTheme s False st) = trace st @
           SetItem ''themeSetting'' (setting_string s) # toggle_effects s @
           [StyleSet ''backgroundColor'' (themeColor (bodyTheme st) st), StyleSet ''opacity'' ''0'',
            StyleSet ''transition'' ''opacity 500ms ease-in-out'', StyleSet ''pointerEvents'' ''auto'',
            RequestAnimationFrame (SetOpacity ''1''), SetTimeout (Suc (timer_counter st)) 2200,
            AddEventListener (HandlePhase1End (closure_counter st) s (themeColor s st)) True]"
    using bp(2) icons by (simp add: eq bookkeeping_fields themeColor_bookkeeping bookkeeping_trace)
  show "currentThemeSetting (applyTheme s False st) = s"
    using bp(3) by (simp add: eq bookkeeping_fields)
  show "localStorage (applyTheme s False st) = (localStorage st)(''themeSetting'' \<mapsto> setting_string s)"
    using bp(4) by (simp add: eq bookkeeping_fields)
  show "control_shows s (applyTheme s False st)"
    using control_shows_cong [OF bp(5), of s] icons by (simp add: eq bookkeeping_shows)
qed

section \<open>Whole transitions\<close>

lemma same_bookkeeping_trans:
  "same_bookkeeping a b \<Longrightarrow> same_bookkeeping b c \<Longrightarrow> same_bookkeeping a c"
  by (simp add: same_bookkeeping_def)

lemma same_bookkeeping_shows:
  "same_bookkeeping a b \<Longrightarrow> control_shows s b = control_shows s a"
  by (simp add: same_bookkeeping_def control_shows_def)

text \<open>
  C1. On a page with overlay and icons where nothing of a transition is left, a
  non-initial \<open>applyTheme(s)\<close> with \<open>s\<close> different from the visible theme, followed by
  the frames and genuine completion events of the three phases, makes exactly these
  writes in this order: the bookkeeping; the overlay painted with the current colour at
  opacity 0 with an opacity transition of 500ms and pointer events on, the frame request,
  the failsafe timer and the phase-1 listener; in the frame, opacity 1; in the phase-1
  handler, the marker class added, a layout read, the body's \<open>dark-mode\<close> class set to the
  target, a layout read, the marker removed, a background-colour transition of 700ms and
  the frame request for the target colour; in the frame, the target colour; in the phase-2
  handler, an opacity transition of 500ms and the frame request for opacity 0; in the
  frame, opacity 0; in the phase-3 handler, the reset. The inline opacity is 1 before and
  after the phase-1 handler. At the end the guard is down, nothing is pending, the opacity
  is 0, pointer events are off, and the store, the current setting, the control and the
  body show \<open>s\<close>.
\<close>

theorem happy_path_transition:
  assumes "present st" and "idle st" and "bodyTheme st \<noteq> s"
  shows "trace (run happy_path (applyTheme s False st)) = trace st @
           SetItem ''themeSetting'' (setting_string s) # toggle_effects s @
           [StyleSet ''backgroundColor'' (themeColor (bodyTheme st) st), StyleSet ''opacity'' ''0'',
            StyleSet ''transition'' ''opacity 500ms ease-in-out'', StyleSet ''pointerEvents'' ''auto'',
            RequestAnimationFrame (SetOpacity ''1''), SetTimeout (Suc (timer_counter st)) 2200,
            AddEventListener (HandlePhase1End (closure_counter st) s (themeColor s st)) True,
            StyleSet ''opacity'' ''1'',
            RemoveEventListener (HandlePhase1End (closure_counter st) s (themeColor s st)),
            ClassAdd Body ''theme-transition-active'', OffsetHeightRead,
            ClassToggle Body ''dark-mode'' (s = Dark), OffsetHeightRead,
            ClassRemove Body ''theme-transition-active'',
            StyleSet ''transition'' ''background-color 700ms ease-in-out'',
            RequestAnimationFrame (SetBackgroundColor (themeColor s st)),
            AddEventListener (HandlePhase2End (closure_counter st)) True,
            StyleSet ''backgroundColor'' (themeColor s st),
            RemoveEventListener (HandlePhase2End (closure_counter st)),
            StyleSet ''transition'' ''opacity 500ms ease-in-out'',
            RequestAnimationFrame (SetOpacity ''0''),
            AddEventListener (HandlePhase3End (closure_counter st)) True,
            StyleSet ''opacity'' ''0'',
            StyleSet ''pointerEvents'' ''none'', StyleSet ''transition'' ''none'',
            StyleSet ''opacity'' ''0'', ClearTimeout (Suc (timer_counter st)),
            ClassRemove Body ''theme-transition-active''] \<and>
         overlay_opacity (run (take 1 happy_path) (applyTheme s False st)) = ''1'' \<and>
         overlay_opacity (run (take 2 happy_path) (applyTheme s False st)) = ''1'' \<and>
         \<not> isTransitioning (run happy_path (applyTheme s False st)) \<and>
         idle (run happy_path (applyTheme s False st)) \<and>
         overlay_opacity (run happy_path (applyTheme s False st)) = ''0'' \<and>
         overlay_pointerEvents (run happy_path (applyTheme s False st)) = ''none'' \<and>
         localStorage (run happy_path (applyTheme s False st)) ''themeSetting'' = Some (setting_string s) \<and>
         currentThemeSetting (run happy_path (applyTheme s False st)) = s \<and>
         control_shows s (run happy_path (applyTheme s False st)) \<and>
         bodyTheme (run happy_path (applyTheme s False st)) = s"
proof -
  define k where "k = closure_counter st"
  define i where "i = Suc (timer_counter st)"
  define bg where "bg = themeColor s st"
  define st1 where "st1 = applyTheme s False st"
  define st2 where "st2 = animation_frame st1"
  define st3 where "st3 = dispatch_transitionend Overlay ''opacity'' st2"
  define st4 where "st4 = animation_frame st3"
  define st5 where "st5 = dispatch_transitionend Overlay ''background-color'' st4"
  define st6 where "st6 = animation_frame st5"
  define st7 where "st7 = dispatch_transitionend Overlay ''opacity'' st6"
  note b = applyTheme_begins [OF assms, folded k_def i_def bg_def st1_def]
  note s2 = frame_fade_in [OF b(1), folded st2_def]
  from s2 have p2: "in_phase FadingIn k s bg i st2" by simp
  note s3 = phase1_end [OF p2, folded st3_def]
  from s3 have p3: "in_phase CrossFadeRequested k s bg i st3" by simp
  note s4 = frame_cross_fade [OF p3, folded st4_def]
  from s4 have p4: "in_phase CrossFading k s bg i st4" by simp
  note s5 = phase2_end [OF p4, folded st5_def]
  from s5 have p5: "in_phase FadeOutRequested k s bg i st5" by simp
  note s6 = frame_fade_out [OF p5, folded st6_def]
  from s6 have p6: "in_phase FadingOut k s bg i st6" by simp
  note s7 = phase3_end [OF p6, folded st7_def]
  have r: "run happy_path st1 = st7"
    by (simp add: happy_path_def run_Cons run_Nil st2_def st3_def st4_def st5_def st6_def st7_def)
  have r1: "run (take 1 happy_path) st1 = st2"
    by (simp add: happy_path_def run_Cons run_Nil st2_def)
  have r2: "run (take 2 happy_path) st1 = st3"
    by (simp add: happy_path_def run_Cons run_Nil st2_def st3_def)
  have sb: "same_bookkeeping st1 st7"
    using s2 s3 s4 s5 s6 s7 by (blast intro: same_bookkeeping_trans)
  have tr: "trace st7 = trace st @
           SetItem ''themeSetting'' (setting_string s) # toggle_effects s @
           [StyleSet ''backgroundColor'' (themeColor (bodyTheme st) st), StyleSet ''opacity'' ''0'',
            StyleSet ''transition'' ''opacity 500ms ease-in-out'', StyleSet ''pointerEvents'' ''auto'',
            RequestAnimationFrame (SetOpacity ''1''), SetTimeout i 2200,
            AddEventListener (HandlePhase1End k s bg) True,
            StyleSet ''opacity'' ''1'',
            RemoveEventListener (HandlePhase1End k s bg),
            ClassAdd Body ''theme-transition-active'', OffsetHeightRead,
            ClassToggle Body ''dark-mode'' (s = Dark), OffsetHeightRead,
            ClassRemove Body ''theme-transition-active'',
            StyleSet ''transition'' ''background-color 700ms ease-in-out'',
            RequestAnimationFrame (SetBackgroundColor bg),
            AddEventListener (HandlePhase2End k) True,
            StyleSet ''backgroundColor'' bg,
            RemoveEventListener (HandlePhase2End k),
            StyleSet ''transition'' ''opacity 500ms ease-in-out'',
            RequestAnimationFrame (SetOpacity ''0''),
            AddEventListener (HandlePhase3End k) True,
            StyleSet ''opacity'' ''0'',
            StyleSet ''pointerEvents'' ''none'', StyleSet ''transition'' ''none'',
            StyleSet ''opacity'' ''0'', ClearTimeout i,
            ClassRemove Body ''theme-transition-active'']"
    using b(2) s2 s3 s4 s5 s6 s7 by simp
  have o2: "overlay_opacity st2 = ''1''" using p2 by (simp add: in_phase_def)
  have o3: "overlay_opacity st3 = ''1''" using p3 by (simp add: in_phase_def)
  have bk: "localStorage st7 ''themeSetting'' = Some (setting_string s)"
    "currentThemeSetting st7 = s" "control_shows s st7"
    using sb b(3,4,5) same_bookkeeping_shows [OF sb, of s] by (simp_all add: same_bookkeeping_def)
  from s7 have fin: "idle st7" "overlay_opacity st7 = ''0''" "overlay_pointerEvents st7 = ''none''"
    "bodyTheme st7 = s" by simp_all
  from fin(1) have nt: "\<not> isTransitioning st7" by (simp add: idle_def)
  show ?thesis
    unfolding st1_def [symmetric] r r1 r2
    using tr o2 o3 bk fin nt by (simp add: k_def i_def bg_def)
qed

lemma example_page_ready: "present example_page" "idle example_page" "bodyTheme example_page = Light"
  by (simp_all add: example_page_def example_button_def example_overlay_def module_load_def
        present_def idle_def sunIcon_def moonIcon_def overlay_listeners_def bodyTheme_def
        classList_contains_def)

theorem happy_path_transition_witness:
  "present example_page \<and> idle example_page \<and> bodyTheme example_page \<noteq> Dark \<and>
   \<not> isTransitioning (run happy_path (applyTheme Dark False example_page)) \<and>
   overlay_opacity (run happy_path (applyTheme Dark False example_page)) = ''0'' \<and>
   localStorage (run happy_path (applyTheme Dark False example_page)) ''themeSetting'' = Some ''dark'' \<and>
   bodyTheme (run happy_path (applyTheme Dark False example_page)) = Dark"
  using happy_path_transition [of example_page Dark] example_page_ready
  by simp

text \<open>From any station, the remaining events of the undisturbed transition finish it.\<close>

lemma finish_5:
  assumes "in_phase FadingOut k s bg i st"
  shows "finished s st (run (drop 5 happy_path) st)"
  using phase3_end [OF assms]
  by (simp add: finished_def happy_path_def run_Cons run_Nil)

lemma finish_4:
  assumes "in_phase FadeOutRequested k s bg i st"
  shows "finished s st (run (drop 4 happy_path) st)"
proof -
  from frame_fade_out [OF assms]
  have p: "in_phase FadingOut k s bg i (animation_frame st)"
    and sb: "same_bookkeeping st (animation_frame st)" by simp_all
  from finish_5 [OF p] sb show ?thesis
    by (auto simp add: finished_def happy_path_def run_Cons run_Nil intro: same_bookkeeping_trans)
qed

lemma finish_3:
  assumes "in_phase CrossFading k s bg i st"
  shows "finished s st (run (drop 3 happy_path) st)"
proof -
  from phase2_end [OF assms]
  have p: "in_phase FadeOutRequested k s bg i (dispatch_transitionend Overlay ''background-color'' st)"
    and sb: "same_bookkeeping st (dispatch_transitionend Overlay ''background-color'' st)" by simp_all
  from finish_4 [OF p] sb show ?thesis
    by (auto simp add: finished_def happy_path_def run_Cons run_Nil intro: same_bookkeeping_trans)
qed

lemma finish_2:
  assumes "in_phase CrossFadeRequested k s bg i st"
  shows "finished s st (run (drop 2 happy_path) st)"
proof -
  from frame_cross_fade [OF assms]
  have p: "in_phase CrossFading k s bg i (animation_frame st)"
    and sb: "same_bookkeeping st (animation_frame st)" by simp_all
  from finish_3 [OF p] sb show ?thesis
    by (auto simp add: finished_def happy_path_def run_Cons run_Nil intro: same_bookkeeping_trans)
qed

lemma finish_1:
  assumes "in_phase FadingIn k s bg i st"
  shows "finished s st (run (drop 1 happy_path) st)"
proof -
  from phase1_end [OF assms]
  have p: "in_phase CrossFadeRequested k s bg i (dispatch_transitionend Overlay ''opacity'' st)"
    and sb: "same_bookkeeping st (dispatch_transitionend Overlay ''opacity'' st)" by simp_all
  from finish_2 [OF p] sb show ?thesis
    by (auto simp add: finished_def happy_path_def run_Cons run_Nil intro: same_bookkeeping_trans)
qed

lemma finish_0:
  assumes "in_phase FadeInRequested k s bg i st"
  shows "finished s st (run (drop 0 happy_path) st)"
proof -
  from frame_fade_in [OF assms]
  have p: "in_phase FadingIn k s bg i (animation_frame st)"
    and sb: "same_bookkeeping st (animation_frame st)" by simp_all
  from finish_1 [OF p] sb show ?thesis
    by (auto simp add: finished_def happy_path_def run_Cons run_Nil intro: same_bookkeeping_trans)
qed

lemma below_6: "n < 6 \<Longrightarrow> n = 0 \<or> n = 1 \<or> n = 2 \<or> n = 3 \<or> n = 4 \<or> n = (5::nat)"
  by arith

lemma finish_station:
  assumes "in_phase (station n) k s bg i st" and "n < 6"
  shows "finished s st (run (drop n happy_path) st)"
  using below_6 [OF assms(2)] assms(1) finish_0 finish_1 finish_2 finish_3 finish_4 finish_5
  by (auto simp add: station_def)

lemma reach_station:
  assumes "in_phase FadeInRequested k s bg i st" and "n < 6"
  shows "in_phase (station n) k s bg i (run (take n happy_path) st) \<and>
         same_bookkeeping st (run (take n happy_path) st)"
proof -
  define st1 where "st1 = animation_frame st"
  define st2 where "st2 = dispatch_transitionend Overlay ''opacity'' st1"
  define st3 where "st3 = animation_frame st2"
  define st4 where "st4 = dispatch_transitionend Overlay ''background-color'' st3"
  define st5 where "st5 = animation_frame st4"
  have p0: "same_bookkeeping st st" by (simp add: same_bookkeeping_def)
  from frame_fade_in [OF assms(1), folded st1_def]
  have p1: "in_phase FadingIn k s bg i st1" and b1: "same_bookkeeping st st1" by simp_all
  from phase1_end [OF p1, folded st2_def] b1
  have p2: "in_phase CrossFadeRequested k s bg i st2" and b2: "same_bookkeeping st st2"
    by (auto intro: same_bookkeeping_trans)
  from frame_cross_fade [OF p2, folded st3_def] b2
  have p3: "in_phase CrossFading k s bg i st3" and b3: "same_bookkeeping st st3"
    by (auto intro: same_bookkeeping_trans)
  from phase2_end [OF p3, folded st4_def] b3
  have p4: "in_phase FadeOutRequested k s bg i st4" and b4: "same_bookkeeping st st4"
    by (auto intro: same_bookkeeping_trans)
  from frame_fade_out [OF p4, folded st5_def] b4
  have p5: "in_phase FadingOut k s bg i st5" and b5: "same_bookkeeping st st5"
    by (auto intro: same_bookkeeping_trans)
  from below_6 [OF assms(2)] show ?thesis
    using assms(1) p0 p1 b1 p2 b2 p3 b3 p4 b4 p5 b5
    by (auto simp add: station_def happy_path_def run_Cons run_Nil
          st1_def st2_def st3_def st4_def st5_def)
qed

lemma idle_quiet:
  assumes "idle st" and "e \<noteq> Click"
  shows "step e st = st"
proof (cases e)
  case Click
  with assms show ?thesis by simp
next
  case AnimationFrame
  with assms show ?thesis by (simp add: idle_def animation_frame_def)
next
  case (TransitionEnd tgt pn)
  with assms show ?thesis by (simp add: idle_def dispatch_transitionend_def)
next
  case (TimerFired i)
  with assms show ?thesis by (simp add: idle_def fire_timer_def)
qed

lemma click_when_settled:
  assumes "present st" and "idle st"
  shows "bodyTheme (step Click st) = bodyTheme st"
    and "bodyTheme st \<noteq> currentThemeSetting st \<Longrightarrow> currentThemeSetting (step Click st) = bodyTheme st"
    and "bodyTheme st \<noteq> currentThemeSetting st \<Longrightarrow> idle (step Click st)"
proof -
  from assms(1) have btn: "themeToggleButton st \<noteq> None"
    by (auto simp add: present_def sunIcon_def split: option.splits)
  from assms(2) have nt: "\<not> isTransitioning st" by (simp add: idle_def)
  show "bodyTheme st \<noteq> currentThemeSetting st \<Longrightarrow> currentThemeSetting (step Click st) = bodyTheme st"
    using btn nt assms(1)
    by (cases "currentThemeSetting st"; cases "bodyTheme st")
       (simp_all add: toggle_click_def applyTheme_main bookkeeping_fields)
  show "bodyTheme st \<noteq> currentThemeSetting st \<Longrightarrow> idle (step Click st)"
    using btn nt assms
    by (cases "currentThemeSetting st"; cases "bodyTheme st")
       (simp_all add: toggle_click_def applyTheme_main idle_bookkeeping)
  show "bodyTheme (step Click st) = bodyTheme st"
  proof (cases "(if currentThemeSetting st = Light then Dark else Light) = bodyTheme st")
    case True
    with btn nt assms(1) show ?thesis
      by (simp add: toggle_click_def applyTheme_main bookkeeping_fields)
  next
    case False
    then have ne: "bodyTheme st \<noteq> (if currentThemeSetting st = Light then Dark else Light)"
      by auto
    from applyTheme_begins(1) [OF assms ne] have "bodyTheme (applyTheme
        (if currentThemeSetting st = Light then Dark else Light) False st) = bodyTheme st"
      using ne by (cases "bodyTheme st"; cases "bodyTheme (applyTheme
        (if currentThemeSetting st = Light then Dark else Light) False st)")
        (auto simp add: in_phase_def split: if_splits)
    with btn show ?thesis by (simp add: toggle_click_def)
  qed
qed

text \<open>
  C9. On a page with overlay and icons where nothing of a transition is left, let a
  transition to \<open>s1\<close> begin and let \<open>applyTheme(s2)\<close> with \<open>s2\<close> different from \<open>s1\<close> be
  called after any number \<open>n < 6\<close> of the transition's events, before its last one. The
  call does the bookkeeping only and leaves overlay, frame callbacks and timers alone. When
  the remaining events have run, the body shows \<open>s1\<close> while the current setting, the store
  and the control show \<open>s2\<close>; nothing is pending (the failsafe timer is cancelled), so every
  event other than a click leaves the state as it is. The next click makes the current
  setting \<open>s1\<close> again, without a transition.
\<close>

theorem interrupted_transition_desynchronised:
  assumes "present st" and "idle st" and "bodyTheme st \<noteq> s1" and "s2 \<noteq> s1" and "n < 6"
  shows "applyTheme s2 False (run (take n happy_path) (applyTheme s1 False st)) =
           bookkeeping s2 (run (take n happy_path) (applyTheme s1 False st)) \<and>
         themeOverlay (applyTheme s2 False (run (take n happy_path) (applyTheme s1 False st))) =
           themeOverlay (run (take n happy_path) (applyTheme s1 False st)) \<and>
         frame_callbacks (applyTheme s2 False (run (take n happy_path) (applyTheme s1 False st))) =
           frame_callbacks (run (take n happy_path) (applyTheme s1 False st)) \<and>
         timers (applyTheme s2 False (run (take n happy_path) (applyTheme s1 False st))) =
           timers (run (take n happy_path) (applyTheme s1 False st)) \<and>
         bodyTheme (interrupted n s1 s2 st) = s1 \<and>
         currentThemeSetting (interrupted n s1 s2 st) = s2 \<and>
         localStorage (interrupted n s1 s2 st) ''themeSetting'' = Some (setting_string s2) \<and>
         control_shows s2 (interrupted n s1 s2 st) \<and>
         idle (interrupted n s1 s2 st) \<and>
         (\<forall>e. e \<noteq> Click \<longrightarrow> step e (interrupted n s1 s2 st) = interrupted n s1 s2 st) \<and>
         currentThemeSetting (step Click (interrupted n s1 s2 st)) = s1 \<and>
         bodyTheme (step Click (interrupted n s1 s2 st)) = s1 \<and>
         idle (step Click (interrupted n s1 s2 st))"
proof -
  define mid where "mid = run (take n happy_path) (applyTheme s1 False st)"
  define final where "final = interrupted n s1 s2 st"
  note b = applyTheme_begins(1) [OF assms(1,2,3)]
  from reach_station [OF b assms(5), folded mid_def]
  have pm: "in_phase (station n) (closure_counter st) s1 (themeColor s1 st) (Suc (timer_counter st)) mid"
    by simp
  note a = apply_in_flight [OF pm, of s2]
  from pm have icons: "sunIcon mid \<noteq> None" "moonIcon mid \<noteq> None"
    by (simp_all add: in_phase_def present_def)
  have fin: "finished s1 (bookkeeping s2 mid) final"
    using finish_station [OF a(2) assms(5)]
    by (simp add: final_def interrupted_def mid_def [symmetric] a(1))
  then have sb: "same_bookkeeping (bookkeeping s2 mid) final" and idl: "idle final"
    and pr: "present final" and bt: "bodyTheme final = s1"
    by (simp_all add: finished_def)
  from sb have cur: "currentThemeSetting final = s2"
    and sto: "localStorage final ''themeSetting'' = Some (setting_string s2)"
    by (simp_all add: same_bookkeeping_def bookkeeping_fields)
  from same_bookkeeping_shows [OF sb, of s2] icons have ctl: "control_shows s2 final"
    by (simp add: bookkeeping_shows)
  from idl have quiet: "\<forall>e. e \<noteq> Click \<longrightarrow> step e final = final"
    by (simp add: idle_quiet)
  from bt cur assms(4) have ne: "bodyTheme final \<noteq> currentThemeSetting final" by simp
  note c = click_when_settled [OF pr idl]
  from c(1) c(2) [OF ne] c(3) [OF ne] bt
  have clk: "currentThemeSetting (step Click final) = s1" "bodyTheme (step Click final) = s1"
    "idle (step Click final)" by simp_all
  show ?thesis
    unfolding final_def [symmetric] mid_def [symmetric]
    using a(1) bt cur sto ctl idl quiet clk by (simp add: bookkeeping_fields)
qed

theorem interrupted_transition_desynchronised_witness:
  "present example_page \<and> idle example_page \<and> bodyTheme example_page \<noteq> Dark \<and> Light \<noteq> Dark \<and>
   (2::nat) < 6 \<and>
   bodyTheme (interrupted 2 Dark Light example_page) = Dark \<and>
   currentThemeSetting (interrupted 2 Dark Light example_page) = Light \<and>
   localStorage (interrupted 2 Dark Light example_page) ''themeSetting'' = Some ''light'' \<and>
   idle (interrupted 2 Dark Light example_page) \<and>
   AnimationFrame \<noteq> Click \<and>
   step AnimationFrame (interrupted 2 Dark Light example_page) = interrupted 2 Dark Light example_page"
proof -
  have ne: "bodyTheme example_page \<noteq> Dark" by (simp add: example_page_ready)
  have lt: "(2::nat) < 6" and d: "Light \<noteq> Dark" by simp_all
  note a = interrupted_transition_desynchronised [OF example_page_ready(1,2) ne d lt]
  from a have q: "\<forall>e. e \<noteq> Click \<longrightarrow>
      step e (interrupted 2 Dark Light example_page) = interrupted 2 Dark Light example_page"
    by blast
  from q have fr: "step AnimationFrame (interrupted 2 Dark Light example_page) =
      interrupted 2 Dark Light example_page"
    by blast
  from a have r: "bodyTheme (interrupted 2 Dark Light example_page) = Dark"
    "currentThemeSetting (interrupted 2 Dark Light example_page) = Light"
    "localStorage (interrupted 2 Dark Light example_page) ''themeSetting'' = Some (setting_string Light)"
    "idle (interrupted 2 Dark Light example_page)"
    by blast+
  from example_page_ready(1,2) ne r fr show ?thesis by simp
qed

text \<open>
  C6. A non-initial \<open>applyTheme(s)\<close> with \<open>s\<close> equal to the visible theme leaves the overlay
  (style and listeners), the queued frame callbacks, the timers, the failsafe timer
  identifier, the guard and the body's classes as they were and creates no closures, while
  it stores \<open>s\<close>, makes it the current setting and, where the button has both icons, makes
  the control show it.
\<close>

theorem applyTheme_same_theme:
  assumes "bodyTheme st = s"
  shows "themeOverlay (applyTheme s False st) = themeOverlay st \<and>
         frame_callbacks (applyTheme s False st) = frame_callbacks st \<and>
         timers (applyTheme s False st) = timers st \<and>
         transitionFailsafeTimeoutId (applyTheme s False st) = transitionFailsafeTimeoutId st \<and>
         closure_counter (applyTheme s False st) = closure_counter st \<and>
         isTransitioning (applyTheme s False st) = isTransitioning st \<and>
         body_classList (applyTheme s False st) = body_classList st \<and>
         localStorage (applyTheme s False st) ''themeSetting'' = Some (setting_string s) \<and>
         currentThemeSetting (applyTheme s False st) = s \<and>
         (sunIcon st \<noteq> None \<and> moonIcon st \<noteq> None \<longrightarrow> control_shows s (applyTheme s False st))"
proof (cases "present st")
  case True
  with assms show ?thesis
    by (simp add: applyTheme_main bookkeeping_fields bookkeeping_shows)
next
  case False
  have icons: "sunIcon st \<noteq> None \<Longrightarrow> themeToggleButton st \<noteq> None"
    by (auto simp add: sunIcon_def split: option.splits)
  have same: "body_classList (setVisualThemeOnBody s x) = body_classList x"
    if "body_classList x = body_classList st" for x
    using assms that by (simp add: setVisualThemeOnBody_same bodyTheme_def)
  from False icons show ?thesis
    by (auto simp add: applyTheme_fallback Let_def setVisualThemeOnBody_fields storage_fields
          updateToggleButtonState_fields same updateToggleButtonState_shows
          icons_currentThemeSetting_update)
qed

theorem applyTheme_same_theme_witness:
  "bodyTheme example_page = Light \<and>
   themeOverlay (applyTheme Light False example_page) = themeOverlay example_page \<and>
   isTransitioning (applyTheme Light False example_page) = isTransitioning example_page \<and>
   sunIcon example_page \<noteq> None \<and> moonIcon example_page \<noteq> None \<and>
   control_shows Light (applyTheme Light False example_page)"
  using applyTheme_same_theme [of example_page Light] example_page_ready
  by (simp add: present_def)

text \<open>
  C8, at a page whose toggle button has no sun icon: \<open>applyTheme('dark')\<close> takes the
  fallback, stores and applies the setting, and leaves the existing toggle button exactly
  as it was, its label unset and its moon icon unmarked.
\<close>

theorem fallback_leaves_button_unchanged:
  "themeToggleButton page_without_sun_icon =
     Some \<lparr>sun_icon = None, moon_icon = Some [''moon-icon''], aria_label = None\<rparr> \<and>
   themeToggleButton (applyTheme Dark False page_without_sun_icon) =
     Some \<lparr>sun_icon = None, moon_icon = Some [''moon-icon''], aria_label = None\<rparr> \<and>
   \<not> control_shows Dark (applyTheme Dark False page_without_sun_icon) \<and>
   currentThemeSetting (applyTheme Dark False page_without_sun_icon) = Dark \<and>
   localStorage (applyTheme Dark False page_without_sun_icon) ''themeSetting'' = Some ''dark'' \<and>
   bodyTheme (applyTheme Dark False page_without_sun_icon) = Dark \<and>
   trace (applyTheme Dark False page_without_sun_icon) =
     [SetItem ''themeSetting'' ''dark'', ClassToggle Body ''dark-mode'' True]"
  by (simp add: page_without_sun_icon_def module_load_def applyTheme_def sunIcon_def moonIcon_def
        Let_def setVisualThemeOnBody_def updateToggleButtonState_def prim_defs bodyTheme_def
        control_shows_def classList_contains_def classList_toggle_def classList_add_def)

section \<open>Invariants of the event loop\<close>

lemma consistent_cong:
  assumes "isTransitioning st' = isTransitioning st" and "timers st' = timers st"
    and "transitionFailsafeTimeoutId st' = transitionFailsafeTimeoutId st"
    and "present st' = present st"
  shows "consistent st' = consistent st"
  using assms by (simp add: consistent_def split: option.splits)

lemma store_valid_cong:
  assumes "localStorage st' = localStorage st"
    and "list_all valid_write (trace st') = list_all valid_write (trace st)"
  shows "store_valid st' = store_valid st"
  using assms by (simp add: store_valid_def)

lemma present_setVisualThemeOnBody: "present (setVisualThemeOnBody s st) = present st"
  by (simp add: present_def setVisualThemeOnBody_fields)

lemma present_updateToggleButtonState: "present (updateToggleButtonState s st) = present st"
  by (simp add: present_def updateToggleButtonState_fields updateToggleButtonState_icons)

lemma valid_trace_setVisualThemeOnBody:
  "list_all valid_write (trace (setVisualThemeOnBody s st)) = list_all valid_write (trace st)"
  by (simp add: setVisualThemeOnBody_def prim_defs)

lemma valid_trace_updateToggleButtonState:
  "list_all valid_write (trace (updateToggleButtonState s st)) = list_all valid_write (trace st)"
  by (simp add: updateToggleButtonState_def prim_defs Let_def)

lemma valid_trace_bookkeeping:
  "list_all valid_write (trace (bookkeeping s st)) = list_all valid_write (trace st)"
  by (cases s) (simp_all add: bookkeeping_def valid_trace_updateToggleButtonState prim_defs)

lemma consistent_bookkeeping: "consistent (bookkeeping s st) = consistent st"
  by (rule consistent_cong) (simp_all add: bookkeeping_fields present_bookkeeping)

lemma consistent_setVisualThemeOnBody: "consistent (setVisualThemeOnBody s st) = consistent st"
  by (rule consistent_cong) (simp_all add: setVisualThemeOnBody_fields present_setVisualThemeOnBody)

lemma consistent_updateToggleButtonState: "consistent (updateToggleButtonState s st) = consistent st"
  by (rule consistent_cong)
     (simp_all add: updateToggleButtonState_fields present_updateToggleButtonState)

text \<open>\<open>resetTransitionOverlay\<close>.\<close>

lemma resetTransitionOverlay_fields:
  "themeToggleButton (resetTransitionOverlay st) = themeToggleButton st"
  "currentThemeSetting (resetTransitionOverlay st) = currentThemeSetting st"
  "localStorage (resetTransitionOverlay st) = localStorage st"
  "frame_callbacks (resetTransitionOverlay st) = frame_callbacks st"
  "closure_counter (resetTransitionOverlay st) = closure_counter st"
  "timer_counter (resetTransitionOverlay st) = timer_counter st"
  "\<not> isTransitioning (resetTransitionOverlay st)"
  "(themeOverlay (resetTransitionOverlay st) = None) = (themeOverlay st = None)"
  "overlay_listeners (resetTransitionOverlay st) = overlay_listeners st"
  "bodyTheme (resetTransitionOverlay st) = bodyTheme st"
  "\<not> classList_contains ''theme-transition-active'' (body_classList (resetTransitionOverlay st))"
  "list_all valid_write (trace (resetTransitionOverlay st)) = list_all valid_write (trace st)"
  by (auto simp add: resetTransitionOverlay_def prim_defs Let_def overlay_listeners_def
        bodyTheme_def contains_remove_other contains_remove_same split: option.splits)

lemma resetTransitionOverlay_overlay:
  "themeOverlay st \<noteq> None \<Longrightarrow>
   overlay_opacity (resetTransitionOverlay st) = ''0'' \<and>
   overlay_pointerEvents (resetTransitionOverlay st) = ''none'' \<and>
   overlay_transition (resetTransitionOverlay st) = ''none''"
  by (auto simp add: resetTransitionOverlay_def prim_defs Let_def overlay_opacity_def
        overlay_pointerEvents_def overlay_transition_def split: option.splits)

lemma resetTransitionOverlay_timers:
  "transitionFailsafeTimeoutId st = Some i \<Longrightarrow> i \<noteq> 0 \<Longrightarrow>
   timers (resetTransitionOverlay st) = filter (\<lambda>p. fst p \<noteq> i) (timers st) \<and>
   transitionFailsafeTimeoutId (resetTransitionOverlay st) = None"
  "transitionFailsafeTimeoutId st = None \<Longrightarrow>
   timers (resetTransitionOverlay st) = timers st \<and>
   transitionFailsafeTimeoutId (resetTransitionOverlay st) = None"
  by (auto simp add: resetTransitionOverlay_def prim_defs Let_def split: option.splits)

lemma present_resetTransitionOverlay: "present (resetTransitionOverlay st) = present st"
  by (simp add: present_def sunIcon_def moonIcon_def resetTransitionOverlay_fields)

lemma consistent_resetTransitionOverlay:
  assumes "consistent st"
  shows "consistent (resetTransitionOverlay st)"
    and "timers (resetTransitionOverlay st) = []"
    and "transitionFailsafeTimeoutId (resetTransitionOverlay st) = None"
proof -
  have "timers (resetTransitionOverlay st) = [] \<and>
        transitionFailsafeTimeoutId (resetTransitionOverlay st) = None"
  proof (cases "isTransitioning st")
    case True
    with assms obtain i where "transitionFailsafeTimeoutId st = Some i" "i \<noteq> 0"
      "timers st = [(i, failsafeDuration)]"
      by (auto simp add: consistent_def split: option.splits)
    with resetTransitionOverlay_timers(1) [of st i] show ?thesis by simp
  next
    case False
    with assms have "transitionFailsafeTimeoutId st = None" "timers st = []"
      by (simp_all add: consistent_def)
    with resetTransitionOverlay_timers(2) [of st] show ?thesis by simp
  qed
  then show "timers (resetTransitionOverlay st) = []"
    and "transitionFailsafeTimeoutId (resetTransitionOverlay st) = None"
    and "consistent (resetTransitionOverlay st)"
    by (simp_all add: consistent_def resetTransitionOverlay_fields)
qed

text \<open>The handlers and the dispatch.\<close>

lemma drop_listener_fields:
  "isTransitioning (drop_listener l st) = isTransitioning st"
  "timers (drop_listener l st) = timers st"
  "transitionFailsafeTimeoutId (drop_listener l st) = transitionFailsafeTimeoutId st"
  "localStorage (drop_listener l st) = localStorage st"
  "trace (drop_listener l st) = trace st"
  "present (drop_listener l st) = present st"
  by (simp_all add: drop_listener_def present_def sunIcon_def moonIcon_def)

lemma handle_phase12_fields:
  assumes "\<forall>k. l \<noteq> HandlePhase3End k"
  shows "isTransitioning (handle l tgt pn st) = isTransitioning st"
    and "timers (handle l tgt pn st) = timers st"
    and "transitionFailsafeTimeoutId (handle l tgt pn st) = transitionFailsafeTimeoutId st"
    and "present (handle l tgt pn st) = present st"
  using assms
  by (cases l; simp add: setVisualThemeOnBody_def prim_defs Let_def present_def sunIcon_def
        moonIcon_def del: string_of_nat.simps)+

lemma handle_store:
  "localStorage (handle l tgt pn st) = localStorage st"
  "list_all valid_write (trace (handle l tgt pn st)) = list_all valid_write (trace st)"
  by (cases l; simp add: setVisualThemeOnBody_def prim_defs Let_def resetTransitionOverlay_fields
        del: string_of_nat.simps)+

lemma consistent_handle:
  assumes "consistent st"
  shows "consistent (handle l tgt pn st)"
proof (cases "\<exists>k. l = HandlePhase3End k")
  case True
  with assms show ?thesis
    by (auto simp add: consistent_resetTransitionOverlay)
next
  case False
  then have "\<forall>k. l \<noteq> HandlePhase3End k" by simp
  from handle_phase12_fields [OF this] assms show ?thesis
    by (simp add: consistent_cong [of "handle l tgt pn st" st])
qed

lemma consistent_invoke: "consistent st \<Longrightarrow> consistent (invoke tgt pn p st)"
  by (simp add: invoke_def consistent_handle
        consistent_cong [of "drop_listener (fst p) st" st] drop_listener_fields)

lemma store_valid_invoke: "store_valid (invoke tgt pn p st) = store_valid st"
  by (simp add: invoke_def store_valid_def handle_store drop_listener_fields)

lemma consistent_fold_invoke:
  "consistent st \<Longrightarrow> consistent (fold (invoke tgt pn) ps st)"
  by (induction ps arbitrary: st) (simp_all add: consistent_invoke)

lemma store_valid_fold_invoke:
  "store_valid (fold (invoke tgt pn) ps st) = store_valid st"
  by (induction ps arbitrary: st) (simp_all add: store_valid_invoke)

lemma consistent_dispatch:
  "consistent st \<Longrightarrow> consistent (dispatch_transitionend tgt pn st)"
  by (simp add: dispatch_transitionend_def consistent_fold_invoke)

lemma store_valid_dispatch: "store_valid (dispatch_transitionend tgt pn st) = store_valid st"
  by (simp add: dispatch_transitionend_def store_valid_fold_invoke)

text \<open>Animation frames.\<close>

lemma run_frame_callback_fields:
  "isTransitioning (run_frame_callback cb st) = isTransitioning st"
  "timers (run_frame_callback cb st) = timers st"
  "transitionFailsafeTimeoutId (run_frame_callback cb st) = transitionFailsafeTimeoutId st"
  "present (run_frame_callback cb st) = present st"
  "localStorage (run_frame_callback cb st) = localStorage st"
  "list_all valid_write (trace (run_frame_callback cb st)) = list_all valid_write (trace st)"
  by (cases cb; simp add: prim_defs present_def sunIcon_def moonIcon_def)+

lemma fold_run_frame_callback:
  "consistent (fold run_frame_callback cbs st) = consistent st"
  "store_valid (fold run_frame_callback cbs st) = store_valid st"
proof (induction cbs arbitrary: st)
  case Nil
  {
    case 1 show ?case by simp
  next
    case 2 show ?case by simp
  }
next
  case (Cons cb cbs)
  {
    case 1
    show ?case
      by (simp add: Cons.IH(1) consistent_cong [of "run_frame_callback cb st" st]
            run_frame_callback_fields)
  next
    case 2
    show ?case
      by (simp add: Cons.IH(2) store_valid_cong [of "run_frame_callback cb st" st]
            run_frame_callback_fields)
  }
qed

lemma frame_callbacks_update_invariants:
  "consistent (st\<lparr>frame_callbacks := x\<rparr>) = consistent st"
  "store_valid (st\<lparr>frame_callbacks := x\<rparr>) = store_valid st"
  by (rule consistent_cong store_valid_cong; simp add: present_def sunIcon_def moonIcon_def)+

lemma animation_frame_invariants:
  "consistent (animation_frame st) = consistent st"
  "store_valid (animation_frame st) = store_valid st"
  by (simp_all add: animation_frame_def fold_run_frame_callback frame_callbacks_update_invariants)

text \<open>The failsafe timer.\<close>

lemma failsafe_store:
  "localStorage (failsafe st) = localStorage st"
  "list_all valid_write (trace (failsafe st)) = list_all valid_write (trace st)"
  by (simp_all add: failsafe_def Let_def updateToggleButtonState_fields setVisualThemeOnBody_fields
        resetTransitionOverlay_fields valid_trace_updateToggleButtonState
        valid_trace_setVisualThemeOnBody prim_defs)

lemma consistent_simple_updates:
  "consistent (console_warn m st) = consistent st"
  "consistent (localStorage_setItem k v st) = consistent st"
  "consistent (st\<lparr>currentThemeSetting := s\<rparr>) = consistent st"
  by (rule consistent_cong; simp add: prim_defs present_def sunIcon_def moonIcon_def)+

lemma consistent_failsafe: "consistent st \<Longrightarrow> consistent (failsafe st)"
  by (simp add: failsafe_def Let_def consistent_updateToggleButtonState
        consistent_setVisualThemeOnBody consistent_resetTransitionOverlay(1)
        consistent_simple_updates)

lemma consistent_fire_timer: "consistent st \<Longrightarrow> consistent (fire_timer i st)"
proof (cases "i \<in> fst ` set (timers st)")
  case False
  then show "consistent st \<Longrightarrow> consistent (fire_timer i st)"
    by (simp add: fire_timer_def)
next
  case True
  assume c: "consistent st"
  let ?st = "st\<lparr>timers := filter (\<lambda>p. fst p \<noteq> i) (timers st)\<rparr>"
  from True c have tr: "isTransitioning st" and id: "transitionFailsafeTimeoutId st = Some i"
    and nz: "i \<noteq> 0" and pr: "present st"
    by (auto simp add: consistent_def split: if_splits option.splits)
  have tr': "isTransitioning ?st" using tr by simp
  have r: "timers (resetTransitionOverlay (console_warn m ?st)) = []
      \<and> transitionFailsafeTimeoutId (resetTransitionOverlay (console_warn m ?st)) = None" for m
    using resetTransitionOverlay_timers(1) [of "console_warn m ?st" i] id nz c tr
    by (auto simp add: prim_defs consistent_def split: option.splits)
  have "consistent (resetTransitionOverlay (console_warn m ?st))" for m
    using r [of m] by (simp add: consistent_def resetTransitionOverlay_fields)
  then have "consistent (failsafe ?st)"
    using tr' by (simp add: failsafe_def Let_def consistent_updateToggleButtonState
          consistent_setVisualThemeOnBody)
  with True show ?thesis by (simp add: fire_timer_def)
qed

lemma store_valid_fire_timer: "store_valid (fire_timer i st) = store_valid st"
  by (simp add: fire_timer_def store_valid_def failsafe_store)

text \<open>\<open>applyTheme\<close> and the click.\<close>

lemma beginTransition_consistent:
  assumes "present st" and "timers st = []" and "transitionFailsafeTimeoutId st = None"
  shows "consistent (beginTransition s c st)"
    and "timers (beginTransition s c st) = [(Suc (timer_counter st), failsafeDuration)]"
    and "transitionFailsafeTimeoutId (beginTransition s c st) = Some (Suc (timer_counter st))"
    and "isTransitioning (beginTransition s c st)"
  using assms
  by (simp_all add: consistent_def beginTransition_def prim_defs Let_def present_def sunIcon_def
        moonIcon_def del: string_of_nat.simps)

lemma beginTransition_store:
  "localStorage (beginTransition s c st) = localStorage st"
  "list_all valid_write (trace (beginTransition s c st)) = list_all valid_write (trace st)"
  by (cases "transitionFailsafeTimeoutId st";
      simp add: beginTransition_def prim_defs Let_def del: string_of_nat.simps)+

lemma consistent_applyTheme:
  assumes "consistent st"
  shows "consistent (applyTheme s i st)"
proof (cases "present st")
  case True
  show ?thesis
  proof (cases "i \<or> isTransitioning st \<or> s = bodyTheme st")
    case True
    with \<open>present st\<close> assms show ?thesis
      by (auto simp add: applyTheme_main consistent_setVisualThemeOnBody consistent_bookkeeping)
  next
    case False
    with assms have "timers (bookkeeping s st) = []"
      "transitionFailsafeTimeoutId (bookkeeping s st) = None"
      by (simp_all add: consistent_def bookkeeping_fields)
    with \<open>present st\<close> False show ?thesis
      by (simp add: applyTheme_main beginTransition_consistent(1) present_bookkeeping)
  qed
next
  case False
  have c: "consistent (setVisualThemeOnBody s
            (localStorage_setItem ''themeSetting'' (setting_string s) (st\<lparr>currentThemeSetting := s\<rparr>)))"
    using assms
    by (simp add: consistent_setVisualThemeOnBody consistent_simple_updates)
  with False show ?thesis
    by (simp add: applyTheme_fallback Let_def consistent_updateToggleButtonState)
qed

lemma applyTheme_store:
  "localStorage (applyTheme s i st) ''themeSetting'' = Some (setting_string s)"
  "list_all valid_write (trace (applyTheme s i st)) = list_all valid_write (trace st)"
proof -
  have w: "list_all valid_write (trace (localStorage_setItem ''themeSetting'' (setting_string s) x))
      = list_all valid_write (trace x)" for x
    by (cases s) (simp_all add: prim_defs)
  show "localStorage (applyTheme s i st) ''themeSetting'' = Some (setting_string s)"
    by (cases "present st")
       (simp_all add: applyTheme_main applyTheme_fallback Let_def bookkeeping_fields
          setVisualThemeOnBody_fields updateToggleButtonState_fields storage_fields
          beginTransition_store)
  show "list_all valid_write (trace (applyTheme s i st)) = list_all valid_write (trace st)"
    by (cases "present st")
       (simp_all add: applyTheme_main applyTheme_fallback Let_def valid_trace_bookkeeping
          valid_trace_setVisualThemeOnBody valid_trace_updateToggleButtonState w
          beginTransition_store)
qed

lemma applyTheme_currentThemeSetting: "currentThemeSetting (applyTheme s True st) = s"
  by (cases "present st")
     (simp_all add: applyTheme_main applyTheme_fallback Let_def bookkeeping_fields
        setVisualThemeOnBody_fields updateToggleButtonState_fields storage_fields)

lemma store_valid_applyTheme: "list_all valid_write (trace st) \<Longrightarrow> store_valid (applyTheme s i st)"
  by (cases s) (simp_all add: store_valid_def applyTheme_store)

lemma step_invariants:
  "consistent st \<Longrightarrow> consistent (step e st)"
  "store_valid st \<Longrightarrow> store_valid (step e st)"
  by (cases e; simp add: toggle_click_def consistent_applyTheme store_valid_applyTheme
        animation_frame_invariants consistent_dispatch store_valid_dispatch
        consistent_fire_timer store_valid_fire_timer store_valid_def [of st])+

lemma run_invariants:
  "consistent st \<Longrightarrow> consistent (run evs st)"
  "store_valid st \<Longrightarrow> store_valid (run evs st)"
  by (induction evs arbitrary: st) (simp_all add: run_Nil run_Cons step_invariants)

lemma trace_localStorage_setItem:
  "trace (localStorage_setItem k v st) = trace st @ [SetItem k v]"
  by (simp add: prim_defs)

lemma initComponents_invariants:
  "consistent st \<Longrightarrow> consistent (initComponents st)"
  "list_all valid_write (trace st) \<Longrightarrow> store_valid (initComponents st)"
  by (simp_all add: initComponents_def Let_def consistent_applyTheme store_valid_applyTheme
        consistent_simple_updates trace_localStorage_setItem)

lemma module_load_invariants:
  "consistent (module_load btn ov cls store bg dbg)"
  "list_all valid_write (trace (module_load btn ov cls store bg dbg))"
  by (simp_all add: module_load_def consistent_def)

lemma reachable_invariants:
  "consistent (run evs (initComponents (module_load btn ov cls store bg dbg)))"
  "store_valid (run evs (initComponents (module_load btn ov cls store bg dbg)))"
  by (simp_all add: run_invariants initComponents_invariants module_load_invariants)

section \<open>Mutual exclusion, failsafe and the stored value\<close>

lemma fold_run_frame_callback_guard:
  "isTransitioning (fold run_frame_callback cbs st) = isTransitioning st"
  by (induction cbs arbitrary: st) (simp_all add: run_frame_callback_fields)

lemma invoke_guard:
  assumes "tgt \<noteq> Overlay \<or> pn \<noteq> ''opacity'' \<or> (\<forall>k. fst p \<noteq> HandlePhase3End k)"
  shows "isTransitioning (invoke tgt pn p st) = isTransitioning st"
proof (cases "\<exists>k. fst p = HandlePhase3End k")
  case True
  with assms have "tgt \<noteq> Overlay \<or> pn \<noteq> ''opacity''" by auto
  with True show ?thesis
    by (auto simp add: invoke_def drop_listener_fields)
next
  case False
  then have "\<forall>k. fst p \<noteq> HandlePhase3End k" by simp
  from handle_phase12_fields(1) [OF this] show ?thesis
    by (simp add: invoke_def drop_listener_fields)
qed

lemma fold_invoke_guard:
  assumes "tgt \<noteq> Overlay \<or> pn \<noteq> ''opacity'' \<or> (\<forall>p \<in> set ps. \<forall>k. fst p \<noteq> HandlePhase3End k)"
  shows "isTransitioning (fold (invoke tgt pn) ps st) = isTransitioning st"
  using assms
proof (induction ps arbitrary: st)
  case Nil
  show ?case by simp
next
  case (Cons p ps)
  from Cons.prems have 1: "tgt \<noteq> Overlay \<or> pn \<noteq> ''opacity'' \<or> (\<forall>k. fst p \<noteq> HandlePhase3End k)"
    and 2: "tgt \<noteq> Overlay \<or> pn \<noteq> ''opacity'' \<or> (\<forall>p \<in> set ps. \<forall>k. fst p \<noteq> HandlePhase3End k)"
    by auto
  from Cons.IH [OF 2] invoke_guard [OF 1] show ?case by simp
qed

lemma guard_stays:
  assumes "consistent st" and "isTransitioning st" and "\<not> isTransitioning (step e st)"
  shows "(\<exists>i. e = TimerFired i \<and> i \<in> fst ` set (timers st)) \<or>
         (e = TransitionEnd Overlay ''opacity'' \<and>
          (\<exists>k. HandlePhase3End k \<in> fst ` set (overlay_listeners st)))"
proof (cases e)
  case Click
  from assms(1,2) have "present st" by (simp add: consistent_def)
  with assms(2,3) Click show ?thesis
    by (simp add: toggle_click_def applyTheme_main bookkeeping_fields split: if_splits)
next
  case AnimationFrame
  with assms(2,3) show ?thesis
    by (simp add: animation_frame_def fold_run_frame_callback_guard)
next
  case (TransitionEnd tgt pn)
  show ?thesis
  proof (rule ccontr)
    assume "\<not> ?thesis"
    with TransitionEnd
    have "tgt \<noteq> Overlay \<or> pn \<noteq> ''opacity'' \<or>
          (\<forall>p \<in> set (overlay_listeners st). \<forall>k. fst p \<noteq> HandlePhase3End k)"
      by force
    from fold_invoke_guard [OF this, of st] assms(2,3) TransitionEnd show False
      by (simp add: dispatch_transitionend_def)
  qed
next
  case (TimerFired i)
  with assms(2,3) show ?thesis
    by (auto simp add: fire_timer_def split: if_splits)
qed

text \<open>
  C2. In a consistent state (every state the page reaches is one) with the guard up, a
  non-initial \<open>applyTheme(s)\<close> does the bookkeeping and nothing else: overlay, frame
  callbacks, timers, failsafe identifier and body classes are unchanged, no closures are
  created, and the guard is still up, while the current setting, the store and the control
  show \<open>s\<close>. From the state after the call, an event can bring the guard down only if it is
  the expiry of a pending timer, or an opacity completion on the overlay with a phase-3
  handler registered.
\<close>

theorem second_call_starts_nothing:
  assumes "consistent st" and "isTransitioning st"
  shows "applyTheme s False st = bookkeeping s st \<and>
         themeOverlay (applyTheme s False st) = themeOverlay st \<and>
         frame_callbacks (applyTheme s False st) = frame_callbacks st \<and>
         timers (applyTheme s False st) = timers st \<and>
         transitionFailsafeTimeoutId (applyTheme s False st) = transitionFailsafeTimeoutId st \<and>
         closure_counter (applyTheme s False st) = closure_counter st \<and>
         body_classList (applyTheme s False st) = body_classList st \<and>
         isTransitioning (applyTheme s False st) \<and>
         currentThemeSetting (applyTheme s False st) = s \<and>
         localStorage (applyTheme s False st) ''themeSetting'' = Some (setting_string s) \<and>
         control_shows s (applyTheme s False st) \<and>
         (\<forall>e. \<not> isTransitioning (step e (applyTheme s False st)) \<longrightarrow>
              (\<exists>i. e = TimerFired i \<and> i \<in> fst ` set (timers st)) \<or>
              (e = TransitionEnd Overlay ''opacity'' \<and>
               (\<exists>k. HandlePhase3End k \<in> fst ` set (overlay_listeners st))))"
proof -
  from assms have pr: "present st" by (simp add: consistent_def)
  with assms(2) have eq: "applyTheme s False st = bookkeeping s st"
    by (simp add: applyTheme_main)
  have c: "consistent (bookkeeping s st)" and t: "isTransitioning (bookkeeping s st)"
    using assms by (simp_all add: consistent_bookkeeping bookkeeping_fields)
  have g: "\<forall>e. \<not> isTransitioning (step e (bookkeeping s st)) \<longrightarrow>
              (\<exists>i. e = TimerFired i \<and> i \<in> fst ` set (timers st)) \<or>
              (e = TransitionEnd Overlay ''opacity'' \<and>
               (\<exists>k. HandlePhase3End k \<in> fst ` set (overlay_listeners st)))"
    using guard_stays [OF c t] by (simp add: bookkeeping_fields bookkeeping_overlay_obs)
  from pr have "control_shows s (bookkeeping s st)"
    by (simp add: bookkeeping_shows present_def)
  with g assms(2) show ?thesis
    unfolding eq by (simp add: bookkeeping_fields)
qed

lemma fading_in_consistent: "in_phase p k s bg i st \<Longrightarrow> consistent st \<and> isTransitioning st"
  by (simp add: in_phase_def consistent_def)

lemma overlay_obs_cong:
  "themeOverlay st' = themeOverlay st \<Longrightarrow>
   overlay_opacity st' = overlay_opacity st \<and>
   overlay_pointerEvents st' = overlay_pointerEvents st \<and>
   overlay_transition st' = overlay_transition st \<and>
   overlay_listeners st' = overlay_listeners st"
  by (simp add: overlay_opacity_def overlay_pointerEvents_def overlay_transition_def
        overlay_listeners_def)

lemma failsafe_fires:
  assumes "consistent st" and "isTransitioning st" and "i \<in> fst ` set (timers st)"
  shows "overlay_pointerEvents (fire_timer i st) = ''none'' \<and>
         overlay_transition (fire_timer i st) = ''none'' \<and>
         overlay_opacity (fire_timer i st) = ''0'' \<and>
         \<not> isTransitioning (fire_timer i st) \<and>
         \<not> classList_contains ''theme-transition-active'' (body_classList (fire_timer i st)) \<and>
         bodyTheme (fire_timer i st) = currentThemeSetting st \<and>
         currentThemeSetting (fire_timer i st) = currentThemeSetting st \<and>
         localStorage (fire_timer i st) = localStorage st \<and>
         control_shows (currentThemeSetting st) (fire_timer i st) \<and>
         timers (fire_timer i st) = [] \<and>
         transitionFailsafeTimeoutId (fire_timer i st) = None"
proof -
  from assms have pr: "present st" and id: "transitionFailsafeTimeoutId st = Some i"
    and nz: "i \<noteq> 0" and tm: "timers st = [(i, failsafeDuration)]"
    by (auto simp add: consistent_def split: option.splits)
  define st1 where
    "st1 = console_warn ''Theme transition (multi-phase) failsafe triggered.''
             (st\<lparr>timers := filter (\<lambda>p. fst p \<noteq> i) (timers st)\<rparr>)"
  define st2 where "st2 = resetTransitionOverlay st1"
  define st3 where "st3 = (if bodyTheme st2 \<noteq> currentThemeSetting st2
                           then setVisualThemeOnBody (currentThemeSetting st2) st2 else st2)"
  define st4 where "st4 = updateToggleButtonState (currentThemeSetting st3) st3"
  have eq: "fire_timer i st = st4"
    using assms(2,3)
    by (simp add: fire_timer_def failsafe_def Let_def st1_def st2_def st3_def st4_def)
  have f1: "themeOverlay st1 = themeOverlay st" "themeToggleButton st1 = themeToggleButton st"
    "currentThemeSetting st1 = currentThemeSetting st" "localStorage st1 = localStorage st"
    "timers st1 = []" "transitionFailsafeTimeoutId st1 = Some i"
    using id tm by (simp_all add: st1_def prim_defs)
  from pr f1(1) have ov1: "themeOverlay st1 \<noteq> None" by (simp add: present_def)
  note r = resetTransitionOverlay_fields [of st1, folded st2_def]
    resetTransitionOverlay_overlay [OF ov1, folded st2_def]
    resetTransitionOverlay_timers(1) [OF f1(6) nz, folded st2_def]
  have f2: "currentThemeSetting st2 = currentThemeSetting st" "localStorage st2 = localStorage st"
    "themeToggleButton st2 = themeToggleButton st" "timers st2 = []"
    "transitionFailsafeTimeoutId st2 = None" "\<not> isTransitioning st2"
    "\<not> classList_contains ''theme-transition-active'' (body_classList st2)"
    "overlay_opacity st2 = ''0''" "overlay_pointerEvents st2 = ''none''"
    "overlay_transition st2 = ''none''"
    using r f1 by simp_all
  have f3a: "\<not> classList_contains ''theme-transition-active'' (body_classList st3)"
    using f2(7) by (simp add: st3_def setVisualThemeOnBody_def prim_defs contains_toggle_other)
  have f3: "bodyTheme st3 = currentThemeSetting st" "themeOverlay st3 = themeOverlay st2"
    "currentThemeSetting st3 = currentThemeSetting st" "localStorage st3 = localStorage st"
    "themeToggleButton st3 = themeToggleButton st" "timers st3 = []"
    "transitionFailsafeTimeoutId st3 = None" "\<not> isTransitioning st3"
    "\<not> classList_contains ''theme-transition-active'' (body_classList st3)"
    using f2 f3a
    by (simp_all add: st3_def setVisualThemeOnBody_fields bodyTheme_setVisualThemeOnBody)
  from pr f3(5) have icons: "sunIcon st3 \<noteq> None" "moonIcon st3 \<noteq> None"
    by (simp_all add: present_def sunIcon_def moonIcon_def)
  have f4: "bodyTheme st4 = currentThemeSetting st" "themeOverlay st4 = themeOverlay st2"
    "currentThemeSetting st4 = currentThemeSetting st" "localStorage st4 = localStorage st"
    "timers st4 = []" "transitionFailsafeTimeoutId st4 = None" "\<not> isTransitioning st4"
    "\<not> classList_contains ''theme-transition-active'' (body_classList st4)"
    "control_shows (currentThemeSetting st) st4"
    using f3 updateToggleButtonState_shows [OF icons, of "currentThemeSetting st3"]
    by (simp_all add: st4_def updateToggleButtonState_fields bodyTheme_def)
  from overlay_obs_cong [OF f4(2)] f2 f4 show ?thesis
    unfolding eq by simp
qed

lemma natural_completion_cancels:
  assumes "consistent st" and "\<not> num_greater (parseFloat (overlay_opacity st)) 0"
  shows "timers (handle (HandlePhase3End k) Overlay ''opacity'' st) = [] \<and>
         transitionFailsafeTimeoutId (handle (HandlePhase3End k) Overlay ''opacity'' st) = None \<and>
         \<not> isTransitioning (handle (HandlePhase3End k) Overlay ''opacity'' st)"
  using assms consistent_resetTransitionOverlay [OF assms(1)]
  by (simp add: resetTransitionOverlay_fields)

lemma arming_cancels:
  assumes "transitionFailsafeTimeoutId x = Some j" and "j \<noteq> 0"
  shows "timers (beginTransition s c x) =
           filter (\<lambda>p. fst p \<noteq> j) (timers x) @ [(Suc (timer_counter x), failsafeDuration)]"
  using assms
  by (simp add: beginTransition_def prim_defs Let_def del: string_of_nat.simps)

text \<open>
  C3. In a consistent state: a non-initial \<open>applyTheme(s)\<close> that begins a transition
  leaves exactly one timer pending, the failsafe with delay 2200, recorded in
  \<open>transitionFailsafeTimeoutId\<close>. When a pending timer fires while the guard is up, the
  overlay gets pointer events \<open>none\<close>, transition \<open>none\<close> and opacity \<open>0\<close>, the guard
  comes down, the body loses \<open>theme-transition-active\<close> and shows the current setting, the
  control shows the current setting, and no timer is pending or recorded. The phase-3
  handler, on a genuine completion, leaves no timer pending or recorded. In any state,
  beginning a transition removes the timer recorded before from the pending ones.
\<close>

theorem failsafe_recovery:
  assumes "consistent st"
  shows "(present st \<and> \<not> isTransitioning st \<and> bodyTheme st \<noteq> s \<longrightarrow>
            failsafeDuration = 500 + 700 + 500 + 500 \<and>
            isTransitioning (applyTheme s False st) \<and>
            timers (applyTheme s False st) = [(Suc (timer_counter st), 2200)] \<and>
            transitionFailsafeTimeoutId (applyTheme s False st) = Some (Suc (timer_counter st))) \<and>
         (isTransitioning st \<and> i \<in> fst ` set (timers st) \<longrightarrow>
            overlay_pointerEvents (fire_timer i st) = ''none'' \<and>
            overlay_transition (fire_timer i st) = ''none'' \<and>
            overlay_opacity (fire_timer i st) = ''0'' \<and>
            \<not> isTransitioning (fire_timer i st) \<and>
            \<not> classList_contains ''theme-transition-active'' (body_classList (fire_timer i st)) \<and>
            bodyTheme (fire_timer i st) = currentThemeSetting st \<and>
            currentThemeSetting (fire_timer i st) = currentThemeSetting st \<and>
            control_shows (currentThemeSetting st) (fire_timer i st) \<and>
            timers (fire_timer i st) = [] \<and>
            transitionFailsafeTimeoutId (fire_timer i st) = None) \<and>
         (\<not> num_greater (parseFloat (overlay_opacity st)) 0 \<longrightarrow>
            timers (handle (HandlePhase3End k) Overlay ''opacity'' st) = [] \<and>
            transitionFailsafeTimeoutId (handle (HandlePhase3End k) Overlay ''opacity'' st) = None) \<and>
         (transitionFailsafeTimeoutId x = Some j \<and> j \<noteq> 0 \<longrightarrow>
            timers (beginTransition s c x) =
              filter (\<lambda>p. fst p \<noteq> j) (timers x) @ [(Suc (timer_counter x), 2200)])"
proof -
  have arm: "isTransitioning (applyTheme s False st) \<and>
            timers (applyTheme s False st) = [(Suc (timer_counter st), 2200)] \<and>
            transitionFailsafeTimeoutId (applyTheme s False st) = Some (Suc (timer_counter st))"
    if "present st" "\<not> isTransitioning st" "bodyTheme st \<noteq> s"
  proof -
    from assms that have t: "timers (bookkeeping s st) = []"
      "transitionFailsafeTimeoutId (bookkeeping s st) = None" "present (bookkeeping s st)"
      by (simp_all add: consistent_def bookkeeping_fields present_bookkeeping)
    from beginTransition_consistent [OF t(3) t(1) t(2), of s "bodyTheme st"] that show ?thesis
      by (auto simp add: applyTheme_main bookkeeping_fields failsafeDuration_value)
  qed
  from arm failsafe_fires [OF assms, of i] natural_completion_cancels [OF assms, of k]
    arming_cancels [of x j s c]
  show ?thesis
    by (simp add: failsafeDuration_value)
qed

text \<open>The example page is consistent, and its overlay has no inline opacity yet.\<close>

lemma example_page_consistent: "consistent example_page" "timer_counter example_page = 0"
  "overlay_opacity example_page = []"
  by (simp_all add: example_page_def example_overlay_def module_load_def consistent_def
        overlay_opacity_def)

lemma parseFloat_empty: "parseFloat [] = None"
  by (simp add: parseFloat_def)

theorem failsafe_recovery_witness:
  "consistent example_page \<and> present example_page \<and> \<not> isTransitioning example_page \<and>
   bodyTheme example_page \<noteq> Dark \<and>
   timers (applyTheme Dark False example_page) = [(1, 2200)] \<and>
   consistent (applyTheme Dark False example_page) \<and>
   isTransitioning (applyTheme Dark False example_page) \<and>
   1 \<in> fst ` set (timers (applyTheme Dark False example_page)) \<and>
   \<not> isTransitioning (fire_timer 1 (applyTheme Dark False example_page)) \<and>
   bodyTheme (fire_timer 1 (applyTheme Dark False example_page)) = Dark \<and>
   \<not> num_greater (parseFloat (overlay_opacity example_page)) 0 \<and>
   timers (handle (HandlePhase3End 0) Overlay ''opacity'' example_page) = [] \<and>
   transitionFailsafeTimeoutId (applyTheme Dark False example_page) = Some 1 \<and> (1::nat) \<noteq> 0 \<and>
   timers (beginTransition Light Dark (applyTheme Dark False example_page)) =
     filter (\<lambda>p. fst p \<noteq> 1) (timers (applyTheme Dark False example_page)) @
     [(Suc (timer_counter (applyTheme Dark False example_page)), 2200)]"
proof -
  define st1 where "st1 = applyTheme Dark False example_page"
  have ne: "bodyTheme example_page \<noteq> Dark" and nt: "\<not> isTransitioning example_page"
    using example_page_ready by (simp_all add: idle_def)
  have nan: "\<not> num_greater (parseFloat (overlay_opacity example_page)) 0"
    by (simp add: example_page_consistent parseFloat_empty)
  note a = failsafe_recovery [OF example_page_consistent(1),
    where s = Dark and i = 1 and k = 0 and x = st1 and j = 1 and c = Dark, folded st1_def]
  from a example_page_ready(1) ne nt
  have t1: "isTransitioning st1" "timers st1 = [(1, 2200)]"
    "transitionFailsafeTimeoutId st1 = Some 1"
    by (simp_all add: example_page_consistent)
  from a nan have h: "timers (handle (HandlePhase3End 0) Overlay ''opacity'' example_page) = []"
    by simp
  have c1: "consistent st1"
    using fading_in_consistent [OF applyTheme_begins(1) [OF example_page_ready(1,2) ne]]
    by (simp add: st1_def)
  have cur: "currentThemeSetting st1 = Dark"
    using applyTheme_begins(3) [OF example_page_ready(1,2) ne] by (simp add: st1_def)
  note b = failsafe_recovery [OF c1,
    where s = Light and i = 1 and k = 0 and x = st1 and j = 1 and c = Dark]
  from b t1 cur have f: "\<not> isTransitioning (fire_timer 1 st1)" "bodyTheme (fire_timer 1 st1) = Dark"
    "timers (beginTransition Light Dark st1) =
       filter (\<lambda>p. fst p \<noteq> 1) (timers st1) @ [(Suc (timer_counter st1), 2200)]"
    by simp_all
  show ?thesis
    unfolding st1_def [symmetric]
    using example_page_consistent(1) example_page_ready(1) ne nt t1 c1 f nan h by simp
qed

theorem second_call_starts_nothing_witness:
  "consistent (applyTheme Dark False example_page) \<and>
   isTransitioning (applyTheme Dark False example_page) \<and>
   isTransitioning (applyTheme Light False (applyTheme Dark False example_page)) \<and>
   currentThemeSetting (applyTheme Light False (applyTheme Dark False example_page)) = Light \<and>
   \<not> isTransitioning (step (TimerFired 1) (applyTheme Light False (applyTheme Dark False example_page))) \<and>
   1 \<in> fst ` set (timers (applyTheme Dark False example_page))"
proof -
  define st1 where "st1 = applyTheme Dark False example_page"
  have ne: "bodyTheme example_page \<noteq> Dark" by (simp add: example_page_ready)
  note p = applyTheme_begins(1) [OF example_page_ready(1,2) ne, folded st1_def]
  from fading_in_consistent [OF p] have c: "consistent st1" and t: "isTransitioning st1"
    by simp_all
  from p have tm: "1 \<in> fst ` set (timers st1)"
    by (simp add: in_phase_def example_page_consistent)
  note a = second_call_starts_nothing [OF c t, of Light]
  from a have eq: "applyTheme Light False st1 = bookkeeping Light st1"
    and g: "isTransitioning (applyTheme Light False st1)"
    and s: "currentThemeSetting (applyTheme Light False st1) = Light"
    by blast+
  have "\<not> isTransitioning (fire_timer 1 (bookkeeping Light st1))"
    using failsafe_fires [of "bookkeeping Light st1" 1] c t tm
    by (simp add: consistent_bookkeeping bookkeeping_fields)
  then have f: "\<not> isTransitioning (step (TimerFired 1) (applyTheme Light False st1))"
    by (simp add: eq)
  from c t g s f tm show ?thesis
    unfolding st1_def by blast
qed

text \<open>The stored value.\<close>

lemma trace_setVisualThemeOnBody:
  "trace (setVisualThemeOnBody s st) = trace st @ [ClassToggle Body ''dark-mode'' (s = Dark)]"
  by (simp add: setVisualThemeOnBody_def prim_defs)

lemma trace_updateToggleButtonState:
  "\<exists>ys. trace (updateToggleButtonState s st) = trace st @ ys"
  by (simp add: updateToggleButtonState_def prim_defs Let_def)

lemma applyTheme_initial_first_write:
  "\<exists>ys. trace (applyTheme s True st) = trace st @ SetItem ''themeSetting'' (setting_string s) # ys"
proof (cases "present st")
  case True
  from trace_updateToggleButtonState
  obtain ys where "trace (updateToggleButtonState s
      (localStorage_setItem ''themeSetting'' (setting_string s) (st\<lparr>currentThemeSetting := s\<rparr>))) =
    trace (localStorage_setItem ''themeSetting'' (setting_string s) (st\<lparr>currentThemeSetting := s\<rparr>)) @ ys"
    by blast
  with True show ?thesis
    by (simp add: applyTheme_main trace_setVisualThemeOnBody bookkeeping_def
          trace_localStorage_setItem)
next
  case False
  let ?st3 = "setVisualThemeOnBody s
       (localStorage_setItem ''themeSetting'' (setting_string s) (st\<lparr>currentThemeSetting := s\<rparr>))"
  from trace_updateToggleButtonState
  obtain ys where "trace (updateToggleButtonState s ?st3) = trace ?st3 @ ys"
    by blast
  with False show ?thesis
    by (simp add: applyTheme_fallback Let_def trace_setVisualThemeOnBody trace_localStorage_setItem)
qed

lemma initComponents_normalises:
  assumes "localStorage st ''themeSetting'' \<noteq> Some ''dark''"
    and "localStorage st ''themeSetting'' \<noteq> Some ''light''"
  shows "currentThemeSetting (initComponents st) = Light"
    and "localStorage (initComponents st) ''themeSetting'' = Some ''light''"
    and "\<exists>ys. trace (initComponents st) = trace st @ SetItem ''themeSetting'' ''light'' # ys"
proof -
  let ?st1 = "localStorage_setItem ''themeSetting'' ''light'' (st\<lparr>currentThemeSetting := Light\<rparr>)"
  from assms have eq: "initComponents st = applyTheme Light True ?st1"
    by (simp add: initComponents_def Let_def storage_fields)
  from applyTheme_currentThemeSetting [of Light ?st1] applyTheme_store(1) [of Light True ?st1]
  show "currentThemeSetting (initComponents st) = Light"
    and "localStorage (initComponents st) ''themeSetting'' = Some ''light''"
    by (simp_all add: eq)
  from applyTheme_initial_first_write [of Light ?st1]
  show "\<exists>ys. trace (initComponents st) = trace st @ SetItem ''themeSetting'' ''light'' # ys"
    by (auto simp add: eq trace_localStorage_setItem)
qed

text \<open>
  C7. When the store holds neither \<open>'dark'\<close> nor \<open>'light'\<close> under \<open>themeSetting\<close> (or
  nothing), \<open>initComponents\<close> makes the current setting Light, its first write is
  \<open>'light'\<close> to the store, and the store holds \<open>'light'\<close> when it returns. On every page,
  after initialisation and any events, every write ever made to the store put \<open>'light'\<close>
  or \<open>'dark'\<close> under \<open>themeSetting\<close>, and the store holds one of the two.
\<close>

theorem stored_value_normalised:
  "(localStorage st ''themeSetting'' \<noteq> Some ''dark'' \<and>
    localStorage st ''themeSetting'' \<noteq> Some ''light'' \<longrightarrow>
      currentThemeSetting (initComponents st) = Light \<and>
      localStorage (initComponents st) ''themeSetting'' = Some ''light'' \<and>
      (\<exists>ys. trace (initComponents st) = trace st @ SetItem ''themeSetting'' ''light'' # ys)) \<and>
   (\<forall>k v. SetItem k v \<in> set (trace (run evs (initComponents (module_load btn ov cls store bg dbg)))) \<longrightarrow>
      k = ''themeSetting'' \<and> (v = ''light'' \<or> v = ''dark'')) \<and>
   (localStorage (run evs (initComponents (module_load btn ov cls store bg dbg))) ''themeSetting'' = Some ''light'' \<or>
    localStorage (run evs (initComponents (module_load btn ov cls store bg dbg))) ''themeSetting'' = Some ''dark'')"
proof -
  let ?st = "run evs (initComponents (module_load btn ov cls store bg dbg))"
  have sv: "store_valid ?st" by (rule reachable_invariants)
  have w: "k = ''themeSetting'' \<and> (v = ''light'' \<or> v = ''dark'')"
    if "SetItem k v \<in> set (trace ?st)" for k v
  proof -
    from sv that have "valid_write (SetItem k v)"
      by (auto simp add: store_valid_def list_all_iff)
    then show ?thesis by simp
  qed
  have n: "localStorage st ''themeSetting'' \<noteq> Some ''dark'' \<and>
      localStorage st ''themeSetting'' \<noteq> Some ''light'' \<longrightarrow>
      currentThemeSetting (initComponents st) = Light \<and>
      localStorage (initComponents st) ''themeSetting'' = Some ''light'' \<and>
      (\<exists>ys. trace (initComponents st) = trace st @ SetItem ''themeSetting'' ''light'' # ys)"
    using initComponents_normalises [of st] by blast
  from sv have v: "localStorage ?st ''themeSetting'' = Some ''light'' \<or>
      localStorage ?st ''themeSetting'' = Some ''dark''"
    by (simp add: store_valid_def)
  from n w v show ?thesis by blast
qed

theorem stored_value_normalised_witness:
  "localStorage example_page ''themeSetting'' \<noteq> Some ''dark'' \<and>
   localStorage example_page ''themeSetting'' \<noteq> Some ''light'' \<and>
   currentThemeSetting (initComponents example_page) = Light \<and>
   localStorage (initComponents example_page) ''themeSetting'' = Some ''light'' \<and>
   SetItem ''themeSetting'' ''light'' \<in> set (trace (run [] (initComponents example_page)))"
proof -
  have e: "localStorage example_page ''themeSetting'' = None"
    by (simp add: example_page_def module_load_def)
  note t = stored_value_normalised [where st = example_page and evs = "[]"
      and btn = "Some example_button" and ov = "Some example_overlay" and cls = "[]"
      and store = Map.empty and bg = "'' #F4EEFF''" and dbg = "'' #161224''",
      folded example_page_def]
  from e have h: "localStorage example_page ''themeSetting'' \<noteq> Some ''dark'' \<and>
      localStorage example_page ''themeSetting'' \<noteq> Some ''light''"
    by simp
  from t [THEN conjunct1, rule_format, OF h]
  have c: "currentThemeSetting (initComponents example_page) = Light"
    "localStorage (initComponents example_page) ''themeSetting'' = Some ''light''"
    "\<exists>ys. trace (initComponents example_page) =
       trace example_page @ SetItem ''themeSetting'' ''light'' # ys"
    by simp_all
  from c(3) obtain ys where
    "trace (initComponents example_page) = trace example_page @ SetItem ''themeSetting'' ''light'' # ys"
    by blast
  then have "SetItem ''themeSetting'' ''light'' \<in> set (trace (run [] (initComponents example_page)))"
    by (simp add: run_Nil)
  with h c show ?thesis by simp
qed

section \<open>Anchor scrolling\<close>

text \<open>
  C10. For a link whose \<open>href\<close> starts with \<open>#\<close> and is not just \<open>#\<close>, when the target
  exists and the header is sticky or fixed, the handler prevents the default and scrolls
  smoothly to the target's top plus the page offset, minus the header's height plus 15.
  For \<open>href\<close> \<open>#\<close>, a missing target or a selector error it does nothing. In no case does
  an exception leave the handler.
\<close>

theorem anchor_click_scrolls:
  "(startsWith ''#'' h \<and> h \<noteq> ''#'' \<and> querySelector doc h = Inr (Some rectTop) \<and>
    header doc = Some hdr \<and> (position hdr = ''sticky'' \<or> position hdr = ''fixed'') \<longrightarrow>
      anchor_click doc (Some h) =
        Inr [PreventDefault,
             ScrollTo (rectTop + pageYOffset doc - (real_of_int (offsetHeight hdr) + 15)) ''smooth'']) \<and>
   anchor_click doc (Some ''#'') = Inr [] \<and>
   (querySelector doc h = Inr None \<longrightarrow> anchor_click doc (Some h) = Inr []) \<and>
   (querySelector doc h = Inl e \<longrightarrow> anchor_click doc (Some h) = Inr []) \<and>
   (\<forall>href e'. anchor_click doc href \<noteq> Inl e')"
proof -
  have 1: "anchor_click doc (Some h) =
        Inr [PreventDefault,
             ScrollTo (rectTop + pageYOffset doc - (real_of_int (offsetHeight hdr) + 15)) ''smooth'']"
    if "startsWith ''#'' h" "h \<noteq> ''#''" "querySelector doc h = Inr (Some rectTop)"
      "header doc = Some hdr" "position hdr = ''sticky'' \<or> position hdr = ''fixed''"
  proof -
    from that(1) have "h \<noteq> []" by (auto simp add: startsWith_def)
    with that show ?thesis
      by (auto simp add: anchor_click_def anchor_try_def Let_def)
  qed
  have 2: "anchor_click doc (Some ''#'') = Inr []"
    by (simp add: anchor_click_def)
  have 3: "anchor_click doc (Some h) = Inr []" if "querySelector doc h = Inr None"
    using that by (simp add: anchor_click_def anchor_try_def)
  have 4: "anchor_click doc (Some h) = Inr []" if "querySelector doc h = Inl e"
    using that by (simp add: anchor_click_def anchor_try_def)
  have 5: "anchor_click doc href \<noteq> Inl e'" for href e'
    by (auto simp add: anchor_click_def split: option.splits sum.splits)
  from 1 2 3 4 5 show ?thesis by blast
qed

theorem anchor_click_scrolls_witness:
  "startsWith ''#'' ''#sobre'' \<and> ''#sobre'' \<noteq> ''#'' \<and>
   querySelector example_document ''#sobre'' = Inr (Some 500.5) \<and>
   header example_document = Some \<lparr>position = ''sticky'', offsetHeight = 70\<rparr> \<and>
   anchor_click example_document (Some ''#sobre'') = Inr [PreventDefault, ScrollTo 535.5 ''smooth''] \<and>
   querySelector example_document ''#nada'' = Inr None \<and>
   anchor_click example_document (Some ''#nada'') = Inr [] \<and>
   querySelector example_document ''#1x'' = Inl SyntaxError \<and>
   anchor_click example_document (Some ''#1x'') = Inr []"
proof -
  have q: "startsWith ''#'' ''#sobre''" "querySelector example_document ''#sobre'' = Inr (Some 500.5)"
    "header example_document = Some \<lparr>position = ''sticky'', offsetHeight = 70\<rparr>"
    "querySelector example_document ''#nada'' = Inr None"
    "querySelector example_document ''#1x'' = Inl SyntaxError"
    "pageYOffset example_document = 120"
    by (simp_all add: startsWith_def example_document_def)
  from anchor_click_scrolls [of "''#sobre''" example_document "500.5"
      "\<lparr>position = ''sticky'', offsetHeight = 70\<rparr>" SyntaxError] q
  have a: "anchor_click example_document (Some ''#sobre'') =
      Inr [PreventDefault, ScrollTo 535.5 ''smooth'']"
    by simp
  from anchor_click_scrolls [of "''#nada''" example_document 0
      "\<lparr>position = ''sticky'', offsetHeight = 70\<rparr>" SyntaxError] q
  have b: "anchor_click example_document (Some ''#nada'') = Inr []"
    by simp
  from anchor_click_scrolls [of "''#1x''" example_document 0
      "\<lparr>position = ''sticky'', offsetHeight = 70\<rparr>" SyntaxError] q
  have c: "anchor_click example_document (Some ''#1x'') = Inr []"
    by simp
  from q a b c show ?thesis by simp
qed

section \<open>Completion events that fail a handler's filter\<close>

lemma no_listeners_dispatch: "overlay_listeners st = [] \<Longrightarrow> dispatch_transitionend tgt pn st = st"
  by (simp add: dispatch_transitionend_def)

lemma drop_only_listener:
  "overlay_listeners st = [(l, once)] \<Longrightarrow> overlay_listeners (drop_listener l st) = []"
  by (auto simp add: overlay_listeners_def drop_listener_def split: option.splits)

lemma drop_listener_more_fields:
  "body_classList (drop_listener l st) = body_classList st"
  "frame_callbacks (drop_listener l st) = frame_callbacks st"
  "bodyTheme (drop_listener l st) = bodyTheme st"
  by (simp_all add: drop_listener_def bodyTheme_def)

lemma filtered_event_disarms_phase1:
  assumes "in_phase p k s bg i st" and "p = FadeInRequested \<or> p = FadingIn"
    and "tgt \<noteq> Overlay \<or> pn \<noteq> ''opacity'' \<or> p = FadeInRequested"
  shows "dispatch_transitionend tgt pn st = drop_listener (HandlePhase1End k s bg) st"
proof -
  from assms(1,2) have l: "overlay_listeners st = [(HandlePhase1End k s bg, True)]"
    by (auto simp add: in_phase_def)
  have o: "overlay_opacity (drop_listener l st) = overlay_opacity st" for l
    by (simp add: overlay_opacity_def drop_listener_def split: option.splits)
  from assms have "tgt \<noteq> Overlay \<or> pn \<noteq> ''opacity'' \<or> overlay_opacity st = ''0''"
    by (auto simp add: in_phase_def)
  with l show ?thesis
    by (auto simp add: dispatch_transitionend_def invoke_def o parseFloat_0)
qed

lemma animation_frame_keeps:
  "overlay_listeners (animation_frame st) = overlay_listeners st"
  "bodyTheme (animation_frame st) = bodyTheme st"
  "isTransitioning (animation_frame st) = isTransitioning st"
proof -
  have "overlay_listeners (fold run_frame_callback cbs x) = overlay_listeners x \<and>
        bodyTheme (fold run_frame_callback cbs x) = bodyTheme x" for cbs x
  proof (induction cbs arbitrary: x)
    case Nil
    show ?case by simp
  next
    case (Cons cb cbs)
    have "overlay_listeners (run_frame_callback cb x) = overlay_listeners x \<and>
          bodyTheme (run_frame_callback cb x) = bodyTheme x"
      by (cases cb)
         (auto simp add: prim_defs overlay_listeners_def bodyTheme_def split: option.splits)
    with Cons.IH [of "run_frame_callback cb x"] show ?case by simp
  qed
  from this [of "frame_callbacks st" "st\<lparr>frame_callbacks := []\<rparr>"]
  show "overlay_listeners (animation_frame st) = overlay_listeners st"
    and "bodyTheme (animation_frame st) = bodyTheme st"
    by (simp_all add: animation_frame_def overlay_listeners_def bodyTheme_def)
  show "isTransitioning (animation_frame st) = isTransitioning st"
    by (simp add: animation_frame_def fold_run_frame_callback_guard)
qed

text \<open>
  C4, on the example page during phase 1. The genuine completion alone flips the body to
  dark. A completion event with another target, or for another property, or arriving
  while the inline opacity is still \<open>0\<close>, changes nothing but removes the phase-1 handler
  (registered with \<open>once\<close>), so that the genuine completion that follows finds no
  listener: the state stays as it was, the body light and the guard up.
\<close>

theorem filtered_completion_disarms_handler:
  "overlay_listeners fading_in_example = [(HandlePhase1End 0 Dark ''#161224'', True)] \<and>
   bodyTheme (run [TransitionEnd Overlay ''opacity''] fading_in_example) = Dark \<and>
   overlay_listeners (run [TransitionEnd OtherElement ''opacity''] fading_in_example) = [] \<and>
   run [TransitionEnd OtherElement ''opacity'', TransitionEnd Overlay ''opacity''] fading_in_example =
     run [TransitionEnd OtherElement ''opacity''] fading_in_example \<and>
   bodyTheme (run [TransitionEnd OtherElement ''opacity'', TransitionEnd Overlay ''opacity'']
     fading_in_example) = Light \<and>
   isTransitioning (run [TransitionEnd OtherElement ''opacity'', TransitionEnd Overlay ''opacity'']
     fading_in_example) \<and>
   overlay_listeners (run [TransitionEnd Overlay ''background-color''] fading_in_example) = [] \<and>
   run [TransitionEnd Overlay ''background-color'', TransitionEnd Overlay ''opacity''] fading_in_example =
     run [TransitionEnd Overlay ''background-color''] fading_in_example \<and>
   bodyTheme (run [TransitionEnd Overlay ''background-color'', TransitionEnd Overlay ''opacity'']
     fading_in_example) = Light \<and>
   isTransitioning (run [TransitionEnd Overlay ''background-color'', TransitionEnd Overlay ''opacity'']
     fading_in_example) \<and>
   overlay_listeners (run [TransitionEnd Overlay ''opacity''] fade_in_requested_example) = [] \<and>
   bodyTheme (run [TransitionEnd Overlay ''opacity'', AnimationFrame, TransitionEnd Overlay ''opacity'']
     fade_in_requested_example) = Light \<and>
   isTransitioning (run [TransitionEnd Overlay ''opacity'', AnimationFrame, TransitionEnd Overlay ''opacity'']
     fade_in_requested_example)"
proof -
  let ?h = "HandlePhase1End 0 Dark ''#161224''"
  have ne: "bodyTheme example_page \<noteq> Dark" by (simp add: example_page_ready)
  have col: "themeColor Dark example_page = ''#161224''"
    by (simp add: themeColor_def example_page_def module_load_def trim_def is_space_def)
  have cc: "closure_counter example_page = 0" "timer_counter example_page = 0"
    by (simp_all add: example_page_def module_load_def)
  from applyTheme_begins(1) [OF example_page_ready(1,2) ne]
  have p0: "in_phase FadeInRequested 0 Dark ''#161224'' 1 fade_in_requested_example"
    by (simp add: fade_in_requested_example_def col cc)
  from frame_fade_in [OF p0]
  have p1: "in_phase FadingIn 0 Dark ''#161224'' 1 fading_in_example"
    by (simp add: fading_in_example_def)
  from p0 have l0: "overlay_listeners fade_in_requested_example = [(?h, True)]"
    and b0: "bodyTheme fade_in_requested_example = Light"
    and t0: "isTransitioning fade_in_requested_example"
    by (auto simp add: in_phase_def intro: ThemeSetting.exhaust)
  from p1 have l1: "overlay_listeners fading_in_example = [(?h, True)]"
    and b1: "bodyTheme fading_in_example = Light" and t1: "isTransitioning fading_in_example"
    by (auto simp add: in_phase_def intro: ThemeSetting.exhaust)
  from phase1_end [OF p1]
  have g: "bodyTheme (run [TransitionEnd Overlay ''opacity''] fading_in_example) = Dark"
    by (simp add: run_Cons run_Nil in_phase_def)
  have a: "dispatch_transitionend OtherElement ''opacity'' fading_in_example =
      drop_listener ?h fading_in_example"
    by (rule filtered_event_disarms_phase1 [OF p1]) simp_all
  have b: "dispatch_transitionend Overlay ''background-color'' fading_in_example =
      drop_listener ?h fading_in_example"
    by (rule filtered_event_disarms_phase1 [OF p1]) simp_all
  have c: "dispatch_transitionend Overlay ''opacity'' fade_in_requested_example =
      drop_listener ?h fade_in_requested_example"
    by (rule filtered_event_disarms_phase1 [OF p0]) simp_all
  note d1 = drop_only_listener [OF l1] and d0 = drop_only_listener [OF l0]
  have e1: "dispatch_transitionend Overlay ''opacity'' (drop_listener ?h fading_in_example) =
      drop_listener ?h fading_in_example"
    by (rule no_listeners_dispatch [OF d1])
  have e0: "dispatch_transitionend Overlay ''opacity''
      (animation_frame (drop_listener ?h fade_in_requested_example)) =
      animation_frame (drop_listener ?h fade_in_requested_example)"
    by (rule no_listeners_dispatch) (simp add: animation_frame_keeps d0)
  show ?thesis
    using l1 g d1 d0 b1 t1 b0 t0
    by (simp add: run_Cons run_Nil a b c e1 e0 animation_frame_keeps drop_listener_more_fields
          drop_listener_fields)
qed

end
